theory Spec2Isabelle
  imports Complex_Main
begin

section \<open>Data model\<close>

text \<open>
  The program is \<^verbatim>\<open>WEEK2/heredity/heredity.py\<close>. Its numbers are Python floats. The
  first sections compute with them in exact arithmetic over \<^typ>\<open>real\<close>, so their
  statements are about the values the formulas denote. The section on double precision
  gives the same functions with the rounding of IEEE-754 doubles written out; the statements
  that depend on the rounding are made there.

  \<^verbatim>\<open>load_data\<close> builds, for each row, a dict with the keys \<^verbatim>\<open>name\<close>, \<^verbatim>\<open>mother\<close>,
  \<^verbatim>\<open>father\<close> and \<^verbatim>\<open>trait\<close>; a blank parent is \<^verbatim>\<open>None\<close>, and the trait is \<^verbatim>\<open>True\<close>,
  \<^verbatim>\<open>False\<close> or \<^verbatim>\<open>None\<close>.
\<close>

record individual =
  name :: string
  mother :: "string option"
  father :: "string option"
  trait :: "bool option"

text \<open>
  \<^verbatim>\<open>people\<close> is a dict from a person's name to that record. A Python dict keeps its
  insertion order and has each key once, so it is an association list; the loops
  \<^verbatim>\<open>for person in people\<close> that read \<^verbatim>\<open>people[person]\<close> visit its entries in order.
\<close>

type_synonym population = "(string \<times> individual) list"

text \<open>
  The exceptions of the interpreter that the modelled statements can raise are
  \<open>KeyError\<close> (a subscript with a missing key) and \<open>ZeroDivisionError\<close> (a division by
  zero, also of floats). \<open>UnsatisfiableEvidence\<close> stands for the dedicated error that the
  specification names for normalisation; no statement of the source raises it.
\<close>

datatype error = KeyError | ZeroDivisionError | UnsatisfiableEvidence

text \<open>The subscript \<^verbatim>\<open>d[k]\<close> of a dict.\<close>

definition getitem :: "('k \<times> 'v) list \<Rightarrow> 'k \<Rightarrow> error + 'v" where
  "getitem d k = (case map_of d k of None \<Rightarrow> Inl KeyError | Some v \<Rightarrow> Inr v)"

subsection \<open>The table \<^verbatim>\<open>PROBS\<close>\<close>

definition PROBS_gene :: "(int \<times> real) list" where
  "PROBS_gene = [(2, 0.01), (1, 0.03), (0, 0.96)]"

definition PROBS_trait :: "(int \<times> (bool \<times> real) list) list" where
  "PROBS_trait =
     [(2, [(True, 0.65), (False, 0.35)]),
      (1, [(True, 0.56), (False, 0.44)]),
      (0, [(True, 0.01), (False, 0.99)])]"

definition PROBS_mutation :: real where
  "PROBS_mutation = 0.01"

section \<open>\<^verbatim>\<open>joint_probability\<close>\<close>

text \<open>
  \<^verbatim>\<open>1 if person in one_gene else 2 if person in two_genes else 0\<close>, the expression both
  \<^verbatim>\<open>joint_probability\<close> and \<^verbatim>\<open>update\<close> bind to \<^verbatim>\<open>person_gene_count\<close>.
\<close>

definition person_gene_count :: "string set \<Rightarrow> string set \<Rightarrow> string \<Rightarrow> int" where
  "person_gene_count one_gene two_genes person =
     (if person \<in> one_gene then 1 else if person \<in> two_genes then 2 else 0)"

text \<open>
  The inner loop over \<^verbatim>\<open>[mother_name, father_name]\<close> that fills the local dict
  \<^verbatim>\<open>parent_gene_inheritance_probability\<close>, starting from the empty dict.
\<close>

definition parent_gene_inheritance_probability ::
  "string set \<Rightarrow> string set \<Rightarrow> string list \<Rightarrow> (string \<rightharpoonup> real)" where
  "parent_gene_inheritance_probability one_gene two_genes parents =
     fold (\<lambda>parent_name d.
             if parent_name \<in> one_gene then d(parent_name \<mapsto> 0.5)
             else if parent_name \<in> two_genes then d(parent_name \<mapsto> 1 - PROBS_mutation)
             else d(parent_name \<mapsto> PROBS_mutation))
          parents Map.empty"

text \<open>
  The first statement of the loop body that multiplies into
  \<^verbatim>\<open>joint_probability_result\<close>: the inheritance formula when both parents are not
  \<^verbatim>\<open>None\<close>, the entry of \<^verbatim>\<open>PROBS["gene"]\<close> otherwise.
\<close>

definition gene_step ::
  "string set \<Rightarrow> string set \<Rightarrow> string \<Rightarrow> individual \<Rightarrow> real \<Rightarrow> error + real" where
  "gene_step one_gene two_genes person r joint_probability_result =
     (let c = person_gene_count one_gene two_genes person in
      case (mother r, father r) of
        (Some mother_name, Some father_name) \<Rightarrow>
          (let d = parent_gene_inheritance_probability one_gene two_genes
                     [mother_name, father_name] in
           case (d mother_name, d father_name) of
             (Some m, Some f) \<Rightarrow>
               if c = 1 then Inr (joint_probability_result * (m * (1 - f) + (1 - m) * f))
               else if c = 2 then Inr (joint_probability_result * (m * f))
               else Inr (joint_probability_result * ((1 - m) * (1 - f)))
           | _ \<Rightarrow> Inl KeyError)
      | _ \<Rightarrow>
          (case getitem PROBS_gene c of
             Inl e \<Rightarrow> Inl e
           | Inr g \<Rightarrow> Inr (joint_probability_result * g)))"

text \<open>
  The last statement of the loop body:
  \<^verbatim>\<open>joint_probability_result *= PROBS["trait"][person_gene_count][person_has_trait]\<close>.
\<close>

definition trait_step ::
  "string set \<Rightarrow> string set \<Rightarrow> string set \<Rightarrow> string \<Rightarrow> real \<Rightarrow> error + real" where
  "trait_step one_gene two_genes have_trait person joint_probability_result =
     (let c = person_gene_count one_gene two_genes person;
          person_has_trait = (person \<in> have_trait) in
      case getitem PROBS_trait c of
        Inl e \<Rightarrow> Inl e
      | Inr row \<Rightarrow>
          (case getitem row person_has_trait of
             Inl e \<Rightarrow> Inl e
           | Inr t \<Rightarrow> Inr (joint_probability_result * t)))"

fun joint_probability_loop ::
  "string set \<Rightarrow> string set \<Rightarrow> string set \<Rightarrow> population \<Rightarrow> real \<Rightarrow> error + real" where
  "joint_probability_loop one_gene two_genes have_trait [] joint_probability_result =
     Inr joint_probability_result"
| "joint_probability_loop one_gene two_genes have_trait ((person, r) # rest)
     joint_probability_result =
     (case gene_step one_gene two_genes person r joint_probability_result of
        Inl e \<Rightarrow> Inl e
      | Inr result1 \<Rightarrow>
          (case trait_step one_gene two_genes have_trait person result1 of
             Inl e \<Rightarrow> Inl e
           | Inr result2 \<Rightarrow> joint_probability_loop one_gene two_genes have_trait rest result2))"

definition joint_probability ::
  "population \<Rightarrow> string set \<Rightarrow> string set \<Rightarrow> string set \<Rightarrow> error + real" where
  "joint_probability people one_gene two_genes have_trait =
     joint_probability_loop one_gene two_genes have_trait people 1"

section \<open>The belief state, \<^verbatim>\<open>update\<close> and \<^verbatim>\<open>normalize\<close>\<close>

text \<open>
  \<^verbatim>\<open>probabilities[person]\<close> is a dict with the two keys \<^verbatim>\<open>"gene"\<close> and \<^verbatim>\<open>"trait"\<close>; the
  first is a dict from a gene count to a number, the second from a trait value to a number.
\<close>

record distributions =
  gene_dist :: "(int \<times> real) list"
  trait_dist :: "(bool \<times> real) list"

type_synonym probabilities = "(string \<times> distributions) list"

text \<open>
  The dict comprehension at the head of \<^verbatim>\<open>main\<close>: every person of \<^verbatim>\<open>people\<close>, with the
  buckets 2, 1, 0 and \<^verbatim>\<open>True\<close>, \<^verbatim>\<open>False\<close> at zero.
\<close>

definition initial_probabilities :: "population \<Rightarrow> probabilities" where
  "initial_probabilities people =
     map (\<lambda>(person, r).
            (person, \<lparr>gene_dist = [(2, 0), (1, 0), (0, 0)],
                      trait_dist = [(True, 0), (False, 0)]\<rparr>))
         people"

text \<open>
  The augmented assignment \<^verbatim>\<open>d[k] += p\<close>: it reads \<^verbatim>\<open>d[k]\<close>, which raises \<open>KeyError\<close> on a
  missing key, and stores the sum under the same key.
\<close>

definition iadd_item :: "('k \<times> real) list \<Rightarrow> 'k \<Rightarrow> real \<Rightarrow> error + ('k \<times> real) list" where
  "iadd_item d k p =
     (case map_of d k of
        None \<Rightarrow> Inl KeyError
      | Some v \<Rightarrow> Inr (map (\<lambda>(k', v'). if k' = k then (k', v + p) else (k', v')) d))"

fun update ::
  "probabilities \<Rightarrow> string set \<Rightarrow> string set \<Rightarrow> string set \<Rightarrow> real \<Rightarrow> error + probabilities"
  where
  "update [] one_gene two_genes have_trait p = Inr []"
| "update ((person, d) # rest) one_gene two_genes have_trait p =
     (let c = person_gene_count one_gene two_genes person;
          person_has_trait = (person \<in> have_trait) in
      case iadd_item (gene_dist d) c p of
        Inl e \<Rightarrow> Inl e
      | Inr g \<Rightarrow>
          (case iadd_item (trait_dist d) person_has_trait p of
             Inl e \<Rightarrow> Inl e
           | Inr t \<Rightarrow>
               (case update rest one_gene two_genes have_trait p of
                  Inl e \<Rightarrow> Inl e
                | Inr rest' \<Rightarrow> Inr ((person, \<lparr>gene_dist = g, trait_dist = t\<rparr>) # rest'))))"

text \<open>
  The innermost loop of \<^verbatim>\<open>normalize\<close>: every bucket of one distribution is divided by
  \<^verbatim>\<open>statistic_probability_sum\<close>, computed once before the loop. Python raises
  \<open>ZeroDivisionError\<close> at the first division when the sum is zero. Nothing catches the
  exception, so \<^verbatim>\<open>normalize\<close> and \<^verbatim>\<open>main\<close> end with it and return no belief state.
\<close>

fun divide_items :: "('k \<times> real) list \<Rightarrow> real \<Rightarrow> error + ('k \<times> real) list" where
  "divide_items [] statistic_probability_sum = Inr []"
| "divide_items ((k, v) # rest) statistic_probability_sum =
     (if statistic_probability_sum = 0 then Inl ZeroDivisionError
      else case divide_items rest statistic_probability_sum of
             Inl e \<Rightarrow> Inl e
           | Inr rest' \<Rightarrow> Inr ((k, v / statistic_probability_sum) # rest'))"

definition normalize_statistic :: "('k \<times> real) list \<Rightarrow> error + ('k \<times> real) list" where
  "normalize_statistic d = divide_items d (sum_list (map snd d))"

fun normalize_probabilities :: "probabilities \<Rightarrow> error + probabilities" where
  "normalize_probabilities [] = Inr []"
| "normalize_probabilities ((person, d) # rest) =
     (case normalize_statistic (gene_dist d) of
        Inl e \<Rightarrow> Inl e
      | Inr g \<Rightarrow>
          (case normalize_statistic (trait_dist d) of
             Inl e \<Rightarrow> Inl e
           | Inr t \<Rightarrow>
               (case normalize_probabilities rest of
                  Inl e \<Rightarrow> Inl e
                | Inr rest' \<Rightarrow> Inr ((person, \<lparr>gene_dist = g, trait_dist = t\<rparr>) # rest'))))"

section \<open>\<^verbatim>\<open>powerset\<close> and the enumeration of \<^verbatim>\<open>main\<close>\<close>

text \<open>
  \<^verbatim>\<open>itertools.combinations(s, r)\<close>: the sublists of length \<open>r\<close>, in the order of the
  positions of their elements.
\<close>

fun combinations :: "'a list \<Rightarrow> nat \<Rightarrow> 'a list list" where
  "combinations xs 0 = [[]]"
| "combinations [] (Suc r) = []"
| "combinations (x # xs) (Suc r) =
     map ((#) x) (combinations xs r) @ combinations xs (Suc r)"

text \<open>
  \<^verbatim>\<open>powerset\<close> starts with \<^verbatim>\<open>list(s)\<close>. Python does not fix the order in which a set is
  listed, so the listing is a parameter \<open>list_of\<close>; \<open>lists_sets\<close> says what every
  listing satisfies on the subsets of \<open>U\<close>: each member once, and nothing else.
\<close>

definition powerset :: "('a set \<Rightarrow> 'a list) \<Rightarrow> 'a set \<Rightarrow> 'a set list" where
  "powerset list_of s =
     (let l = list_of s in
      map set (concat (map (combinations l) [0..<length l + 1])))"

definition lists_sets :: "('a set \<Rightarrow> 'a list) \<Rightarrow> 'a set \<Rightarrow> bool" where
  "lists_sets list_of U = (\<forall>s. s \<subseteq> U \<longrightarrow> set (list_of s) = s \<and> distinct (list_of s))"

text \<open>A \<^verbatim>\<open>for\<close> loop whose body may raise: the first exception ends the loop.\<close>

fun for_each :: "'a list \<Rightarrow> ('a \<Rightarrow> 's \<Rightarrow> error + 's) \<Rightarrow> 's \<Rightarrow> error + 's" where
  "for_each [] body s = Inr s"
| "for_each (x # xs) body s =
     (case body x s of Inl e \<Rightarrow> Inl e | Inr s' \<Rightarrow> for_each xs body s')"

text \<open>
  \<^verbatim>\<open>fails_evidence\<close>: \<^verbatim>\<open>names\<close> is the set of the keys of \<^verbatim>\<open>people\<close>, so the generator
  under \<^verbatim>\<open>any\<close> ranges over the entries of \<^verbatim>\<open>people\<close>.
\<close>

definition fails_evidence :: "population \<Rightarrow> string set \<Rightarrow> bool" where
  "fails_evidence people have_trait =
     (\<exists>(person, r) \<in> set people.
        trait r \<noteq> None \<and> trait r \<noteq> Some (person \<in> have_trait))"

text \<open>The two loops over \<^verbatim>\<open>one_gene\<close> and \<^verbatim>\<open>two_genes\<close> for one \<^verbatim>\<open>have_trait\<close>.\<close>

definition score_all ::
  "(string set \<Rightarrow> string list) \<Rightarrow> population \<Rightarrow> string set \<Rightarrow> probabilities
     \<Rightarrow> error + probabilities" where
  "score_all list_of people have_trait probs =
     (let names = set (map fst people) in
      for_each (powerset list_of names)
        (\<lambda>one_gene.
           for_each (powerset list_of (names - one_gene))
             (\<lambda>two_genes probs'.
                case joint_probability people one_gene two_genes have_trait of
                  Inl e \<Rightarrow> Inl e
                | Inr p \<Rightarrow> update probs' one_gene two_genes have_trait p))
        probs)"

text \<open>The body of the loop over \<^verbatim>\<open>have_trait\<close>, with its \<^verbatim>\<open>continue\<close>.\<close>

definition main_step ::
  "(string set \<Rightarrow> string list) \<Rightarrow> population \<Rightarrow> string set \<Rightarrow> probabilities
     \<Rightarrow> error + probabilities" where
  "main_step list_of people have_trait probs =
     (if fails_evidence people have_trait then Inr probs
      else score_all list_of people have_trait probs)"

definition main_loop ::
  "(string set \<Rightarrow> string list) \<Rightarrow> population \<Rightarrow> error + probabilities" where
  "main_loop list_of people =
     for_each (powerset list_of (set (map fst people))) (main_step list_of people)
       (initial_probabilities people)"

text \<open>
  \<^verbatim>\<open>main\<close> from the loaded \<^verbatim>\<open>people\<close> to the normalised \<^verbatim>\<open>probabilities\<close> that it
  prints.
\<close>

definition main :: "(string set \<Rightarrow> string list) \<Rightarrow> population \<Rightarrow> error + probabilities" where
  "main list_of people =
     (case main_loop list_of people of
        Inl e \<Rightarrow> Inl e
      | Inr probs \<Rightarrow> normalize_probabilities probs)"

section \<open>The terms of the specification\<close>

text \<open>
  The specification describes the joint probability by two tables, a mutation rate and two
  formulas. They are written here from its words, with the values it quotes, to be compared
  with what the code computes: the unconditional prior of a gene count, the probability of
  a trait value given a gene count, the probability that a parent with a given gene count
  transmits the gene, and the probability of a child's gene count given the two
  transmission probabilities.
\<close>

definition prior :: "int \<Rightarrow> real" where
  "prior g = (if g = 2 then 0.01 else if g = 1 then 0.03 else 0.96)"

definition trait_given_gene :: "int \<Rightarrow> bool \<Rightarrow> real" where
  "trait_given_gene g t =
     (if g = 2 then (if t then 0.65 else 0.35)
      else if g = 1 then (if t then 0.56 else 0.44)
      else (if t then 0.01 else 0.99))"

definition transmit :: "int \<Rightarrow> real" where
  "transmit parent_count =
     (if parent_count = 1 then 0.5
      else if parent_count = 2 then 1 - PROBS_mutation
      else PROBS_mutation)"

definition inherit :: "int \<Rightarrow> real \<Rightarrow> real \<Rightarrow> real" where
  "inherit child_count mother_transmit father_transmit =
     (if child_count = 0 then (1 - mother_transmit) * (1 - father_transmit)
      else if child_count = 1 then
        mother_transmit * (1 - father_transmit) + (1 - mother_transmit) * father_transmit
      else mother_transmit * father_transmit)"

text \<open>
  A founder has no parent in the model. The gene term of the specification is the prior for
  a founder and the inheritance formula on the two parents' gene counts otherwise. The
  populations of the specification give every individual both parents or none
  (\<open>parents_paired\<close>); \<^verbatim>\<open>load_data\<close> asks the same of its file.
\<close>

definition founder :: "individual \<Rightarrow> bool" where
  "founder r = (mother r = None \<and> father r = None)"

definition gene_term :: "string set \<Rightarrow> string set \<Rightarrow> string \<Rightarrow> individual \<Rightarrow> real" where
  "gene_term one_gene two_genes person r =
     (if founder r then prior (person_gene_count one_gene two_genes person)
      else inherit (person_gene_count one_gene two_genes person)
             (transmit (person_gene_count one_gene two_genes (the (mother r))))
             (transmit (person_gene_count one_gene two_genes (the (father r)))))"

definition parents_paired :: "population \<Rightarrow> bool" where
  "parents_paired people =
     (\<forall>(person, r) \<in> set people. (mother r = None) = (father r = None))"

text \<open>
  What the loop body of \<^verbatim>\<open>joint_probability\<close> multiplies in for one person, as a number:
  the inheritance formula exactly when both parents are recorded, as the code tests it.
  \<open>joint\<close> is the product of these factors over the population.
\<close>

definition gene_factor :: "string set \<Rightarrow> string set \<Rightarrow> string \<Rightarrow> individual \<Rightarrow> real" where
  "gene_factor one_gene two_genes person r =
     (case (mother r, father r) of
        (Some m, Some f) \<Rightarrow>
          inherit (person_gene_count one_gene two_genes person)
            (transmit (person_gene_count one_gene two_genes m))
            (transmit (person_gene_count one_gene two_genes f))
      | _ \<Rightarrow> prior (person_gene_count one_gene two_genes person))"

definition person_factor ::
  "string set \<Rightarrow> string set \<Rightarrow> string set \<Rightarrow> string \<times> individual \<Rightarrow> real" where
  "person_factor one_gene two_genes have_trait pr =
     gene_factor one_gene two_genes (fst pr) (snd pr) *
     trait_given_gene (person_gene_count one_gene two_genes (fst pr)) (fst pr \<in> have_trait)"

definition joint :: "population \<Rightarrow> string set \<Rightarrow> string set \<Rightarrow> string set \<Rightarrow> real" where
  "joint people one_gene two_genes have_trait =
     prod_list (map (person_factor one_gene two_genes have_trait) people)"

text \<open>
  An example population: a child with both parents in the model, and the two parents as
  founders, one known to have the trait and one known not to.
\<close>

definition example_family :: population where
  "example_family =
     [(''Harry'', \<lparr>name = ''Harry'', mother = Some ''Lily'', father = Some ''James'',
                   trait = None\<rparr>),
      (''James'', \<lparr>name = ''James'', mother = None, father = None, trait = Some True\<rparr>),
      (''Lily'', \<lparr>name = ''Lily'', mother = None, father = None, trait = Some False\<rparr>)]"

section \<open>Notions for the accumulated belief state\<close>

text \<open>
  \<open>belief names G T\<close> is a belief state with the buckets that \<^verbatim>\<open>main\<close> creates, for the
  persons \<open>names\<close> in order: person \<open>n\<close> holds \<open>G n g\<close> in the gene bucket \<open>g\<close> and
  \<open>T n b\<close> in the trait bucket \<open>b\<close>.
\<close>

definition belief ::
  "string list \<Rightarrow> (string \<Rightarrow> int \<Rightarrow> real) \<Rightarrow> (string \<Rightarrow> bool \<Rightarrow> real) \<Rightarrow> probabilities" where
  "belief names G T =
     map (\<lambda>person.
            (person, \<lparr>gene_dist = [(2, G person 2), (1, G person 1), (0, G person 0)],
                      trait_dist = [(True, T person True), (False, T person False)]\<rparr>))
         names"

text \<open>
  The mass that one scored assignment adds to the gene bucket \<open>g\<close> and to the trait bucket
  \<open>b\<close> of person \<open>n\<close>.
\<close>

definition gene_mass ::
  "population \<Rightarrow> string set \<Rightarrow> string set \<Rightarrow> string set \<Rightarrow> string \<Rightarrow> int \<Rightarrow> real" where
  "gene_mass people have_trait one_gene two_genes n g =
     (if g = person_gene_count one_gene two_genes n
      then joint people one_gene two_genes have_trait else 0)"

definition trait_mass ::
  "population \<Rightarrow> string set \<Rightarrow> string set \<Rightarrow> string set \<Rightarrow> string \<Rightarrow> bool \<Rightarrow> real" where
  "trait_mass people have_trait one_gene two_genes n b =
     (if b = (n \<in> have_trait) then joint people one_gene two_genes have_trait else 0)"

text \<open>
  Sums in the order of the loops of \<^verbatim>\<open>main\<close>: over the pairs \<^verbatim>\<open>one_gene\<close>,
  \<^verbatim>\<open>two_genes\<close> for one trait subset, and over all the assignments that are scored.
\<close>

definition over_partitions ::
  "(string set \<Rightarrow> string list) \<Rightarrow> population \<Rightarrow> (string set \<Rightarrow> string set \<Rightarrow> real) \<Rightarrow> real" where
  "over_partitions list_of people f =
     (\<Sum>one_gene\<leftarrow>powerset list_of (set (map fst people)).
        \<Sum>two_genes\<leftarrow>powerset list_of (set (map fst people) - one_gene).
          f one_gene two_genes)"

definition over_assignments ::
  "(string set \<Rightarrow> string list) \<Rightarrow> population
     \<Rightarrow> (string set \<Rightarrow> string set \<Rightarrow> string set \<Rightarrow> real) \<Rightarrow> real" where
  "over_assignments list_of people f =
     (\<Sum>have_trait\<leftarrow>powerset list_of (set (map fst people)).
        if fails_evidence people have_trait then 0
        else over_partitions list_of people (f have_trait))"

definition total_mass :: "(string set \<Rightarrow> string list) \<Rightarrow> population \<Rightarrow> real" where
  "total_mass list_of people =
     over_assignments list_of people
       (\<lambda>have_trait one_gene two_genes. joint people one_gene two_genes have_trait)"

section \<open>Notions of the remaining claims\<close>

text \<open>
  The rejection rule in the words of the specification: some individual with known evidence
  is known to exhibit the trait and is not a member of the subset, or is known not to
  exhibit it and is a member.
\<close>

definition contradicts_evidence :: "population \<Rightarrow> string set \<Rightarrow> bool" where
  "contradicts_evidence people have_trait =
     (\<exists>(person, r) \<in> set people.
        (trait r = Some True \<and> person \<notin> have_trait) \<or>
        (trait r = Some False \<and> person \<in> have_trait))"

text \<open>
  \<open>normalized_from d d'\<close>: the distribution \<open>d'\<close> is \<open>d\<close> with every bucket divided by the
  sum of \<open>d\<close>, and it sums to one, so also within one millionth of one.
\<close>

definition normalized_from :: "('k \<times> real) list \<Rightarrow> ('k \<times> real) list \<Rightarrow> bool" where
  "normalized_from d d' =
     (d' = map (\<lambda>(k, v). (k, v / sum_list (map snd d))) d \<and>
      sum_list (map snd d') = 1 \<and>
      \<bar>sum_list (map snd d') - 1\<bar> \<le> 1 / 1000000)"

text \<open>
  The population in which the children named in \<open>children\<close> have mother and father
  exchanged.
\<close>

definition swap_parents :: "string set \<Rightarrow> population \<Rightarrow> population" where
  "swap_parents children people =
     map (\<lambda>(person, r).
            (person, if person \<in> children then r\<lparr>mother := father r, father := mother r\<rparr>
                     else r))
         people"

text \<open>
  A sequence of calls of \<^verbatim>\<open>update\<close>, each with its own sets and its own \<open>p\<close>, and the
  mass that the sequence adds.
\<close>

definition update_all ::
  "(string set \<times> string set \<times> string set \<times> real) list \<Rightarrow> probabilities
     \<Rightarrow> error + probabilities" where
  "update_all calls probs =
     for_each calls
       (\<lambda>(one_gene, two_genes, have_trait, p) probs'.
          update probs' one_gene two_genes have_trait p)
       probs"

definition mass_of :: "(string set \<times> string set \<times> string set \<times> real) list \<Rightarrow> real" where
  "mass_of calls = (\<Sum>(one_gene, two_genes, have_trait, p)\<leftarrow>calls. p)"

text \<open>
  One listing of sets, for the examples: the members of a set in the order of a fixed list.
\<close>

definition listed_in :: "'a list \<Rightarrow> 'a set \<Rightarrow> 'a list" where
  "listed_in order s = filter (\<lambda>x. x \<in> s) order"

section \<open>The program in double precision\<close>

text \<open>
  Python's floats are IEEE-754 doubles: every arithmetic operation returns the double
  nearest to the exact result, ties going to the even significand, and a decimal literal
  denotes the double nearest to it. \<open>round_double\<close> is that rounding on the finite
  range. It scales the magnitude by powers of two until the significand \<open>m\<close> has 53 bits
  (from 4503599627370496, which is two to the 52, up to 9007199254740992), without letting
  the exponent \<open>e\<close> of the unit go below that of the smallest subnormal, -1074, and
  rounds the significand to an integer. The fuel bounds the scaling steps; 2200 are enough
  for every exponent of a double. Results beyond the largest double, which Python turns
  into infinities, do not occur among probabilities and are not modelled.
\<close>

definition round_half_even :: "real \<Rightarrow> int" where
  "round_half_even x =
     (let f = \<lfloor>x\<rfloor>; d = x - of_int f in
      if d < 1 / 2 then f else if 1 / 2 < d then f + 1 else if even f then f else f + 1)"

fun scale_to_mantissa :: "nat \<Rightarrow> real \<Rightarrow> int \<Rightarrow> real \<times> int" where
  "scale_to_mantissa fuel m e =
     (if fuel = 0 then (m, e)
      else if m < 4503599627370496 \<and> - 1074 < e
        then scale_to_mantissa (fuel - 1) (2 * m) (e - 1)
      else if 9007199254740992 \<le> m
        then scale_to_mantissa (fuel - 1) (m / 2) (e + 1)
      else (m, e))"

declare scale_to_mantissa.simps [simp del]

definition round_positive :: "real \<Rightarrow> real" where
  "round_positive x =
     (case scale_to_mantissa 2200 x 0 of (m, e) \<Rightarrow> of_int (round_half_even m) * 2 powi e)"

definition round_double :: "real \<Rightarrow> real" where
  "round_double x =
     (if x = 0 then 0 else if 0 < x then round_positive x else - round_positive (- x))"

text \<open>
  The functions of the program once more, with the rounding of every arithmetic operation
  and of every decimal literal written out. The rounding is the parameter \<open>fl\<close>: with
  \<open>round_double\<close> they compute what the program computes, with the identity they are the
  functions above. The comments give the Python expression whose operations are rounded.
\<close>

definition PROBS_gene_fl :: "(real \<Rightarrow> real) \<Rightarrow> (int \<times> real) list" where
  "PROBS_gene_fl fl = [(2, fl 0.01), (1, fl 0.03), (0, fl 0.96)]"

definition PROBS_trait_fl :: "(real \<Rightarrow> real) \<Rightarrow> (int \<times> (bool \<times> real) list) list" where
  "PROBS_trait_fl fl =
     [(2, [(True, fl 0.65), (False, fl 0.35)]),
      (1, [(True, fl 0.56), (False, fl 0.44)]),
      (0, [(True, fl 0.01), (False, fl 0.99)])]"

definition PROBS_mutation_fl :: "(real \<Rightarrow> real) \<Rightarrow> real" where
  "PROBS_mutation_fl fl = fl 0.01"

definition parent_gene_inheritance_probability_fl ::
  "(real \<Rightarrow> real) \<Rightarrow> string set \<Rightarrow> string set \<Rightarrow> string list \<Rightarrow> (string \<rightharpoonup> real)" where
  "parent_gene_inheritance_probability_fl fl one_gene two_genes parents =
     fold (\<lambda>parent_name d.
             if parent_name \<in> one_gene then d(parent_name \<mapsto> fl 0.5)
             else if parent_name \<in> two_genes
               then d(parent_name \<mapsto> fl (1 - PROBS_mutation_fl fl))
             else d(parent_name \<mapsto> PROBS_mutation_fl fl))
          parents Map.empty"

definition gene_step_fl ::
  "(real \<Rightarrow> real) \<Rightarrow> string set \<Rightarrow> string set \<Rightarrow> string \<Rightarrow> individual \<Rightarrow> real
     \<Rightarrow> error + real" where
  "gene_step_fl fl one_gene two_genes person r joint_probability_result =
     (let c = person_gene_count one_gene two_genes person in
      case (mother r, father r) of
        (Some mother_name, Some father_name) \<Rightarrow>
          (let d = parent_gene_inheritance_probability_fl fl one_gene two_genes
                     [mother_name, father_name] in
           case (d mother_name, d father_name) of
             (Some m, Some f) \<Rightarrow>
               if c = 1 then
                 \<comment> \<open>\<^verbatim>\<open>result *= (m * (1 - f) + (1 - m) * f)\<close>\<close>
                 Inr (fl (joint_probability_result *
                          fl (fl (m * fl (1 - f)) + fl (fl (1 - m) * f))))
               else if c = 2 then
                 \<comment> \<open>\<^verbatim>\<open>result *= m * f\<close>\<close>
                 Inr (fl (joint_probability_result * fl (m * f)))
               else
                 \<comment> \<open>\<^verbatim>\<open>result *= (1 - m) * (1 - f)\<close>\<close>
                 Inr (fl (joint_probability_result * fl (fl (1 - m) * fl (1 - f))))
           | _ \<Rightarrow> Inl KeyError)
      | _ \<Rightarrow>
          (case getitem (PROBS_gene_fl fl) c of
             Inl e \<Rightarrow> Inl e
           | Inr g \<Rightarrow> Inr (fl (joint_probability_result * g))))"

definition trait_step_fl ::
  "(real \<Rightarrow> real) \<Rightarrow> string set \<Rightarrow> string set \<Rightarrow> string set \<Rightarrow> string \<Rightarrow> real
     \<Rightarrow> error + real" where
  "trait_step_fl fl one_gene two_genes have_trait person joint_probability_result =
     (let c = person_gene_count one_gene two_genes person;
          person_has_trait = (person \<in> have_trait) in
      case getitem (PROBS_trait_fl fl) c of
        Inl e \<Rightarrow> Inl e
      | Inr row \<Rightarrow>
          (case getitem row person_has_trait of
             Inl e \<Rightarrow> Inl e
           | Inr t \<Rightarrow> Inr (fl (joint_probability_result * t))))"

fun joint_probability_loop_fl ::
  "(real \<Rightarrow> real) \<Rightarrow> string set \<Rightarrow> string set \<Rightarrow> string set \<Rightarrow> population \<Rightarrow> real
     \<Rightarrow> error + real" where
  "joint_probability_loop_fl fl one_gene two_genes have_trait [] joint_probability_result =
     Inr joint_probability_result"
| "joint_probability_loop_fl fl one_gene two_genes have_trait ((person, r) # rest)
     joint_probability_result =
     (case gene_step_fl fl one_gene two_genes person r joint_probability_result of
        Inl e \<Rightarrow> Inl e
      | Inr result1 \<Rightarrow>
          (case trait_step_fl fl one_gene two_genes have_trait person result1 of
             Inl e \<Rightarrow> Inl e
           | Inr result2 \<Rightarrow>
               joint_probability_loop_fl fl one_gene two_genes have_trait rest result2))"

definition joint_probability_fl ::
  "(real \<Rightarrow> real) \<Rightarrow> population \<Rightarrow> string set \<Rightarrow> string set \<Rightarrow> string set \<Rightarrow> error + real"
  where
  "joint_probability_fl fl people one_gene two_genes have_trait =
     joint_probability_loop_fl fl one_gene two_genes have_trait people 1"

definition iadd_item_fl ::
  "(real \<Rightarrow> real) \<Rightarrow> ('k \<times> real) list \<Rightarrow> 'k \<Rightarrow> real \<Rightarrow> error + ('k \<times> real) list" where
  "iadd_item_fl fl d k p =
     (case map_of d k of
        None \<Rightarrow> Inl KeyError
      | Some v \<Rightarrow> Inr (map (\<lambda>(k', v'). if k' = k then (k', fl (v + p)) else (k', v')) d))"

fun update_fl ::
  "(real \<Rightarrow> real) \<Rightarrow> probabilities \<Rightarrow> string set \<Rightarrow> string set \<Rightarrow> string set \<Rightarrow> real
     \<Rightarrow> error + probabilities" where
  "update_fl fl [] one_gene two_genes have_trait p = Inr []"
| "update_fl fl ((person, d) # rest) one_gene two_genes have_trait p =
     (let c = person_gene_count one_gene two_genes person;
          person_has_trait = (person \<in> have_trait) in
      case iadd_item_fl fl (gene_dist d) c p of
        Inl e \<Rightarrow> Inl e
      | Inr g \<Rightarrow>
          (case iadd_item_fl fl (trait_dist d) person_has_trait p of
             Inl e \<Rightarrow> Inl e
           | Inr t \<Rightarrow>
               (case update_fl fl rest one_gene two_genes have_trait p of
                  Inl e \<Rightarrow> Inl e
                | Inr rest' \<Rightarrow> Inr ((person, \<lparr>gene_dist = g, trait_dist = t\<rparr>) # rest'))))"

text \<open>
  \<^verbatim>\<open>sum(values)\<close> adds the values to 0 from left to right. (From version 3.12 CPython
  also carries a compensation term through the additions; on the values summed in this
  theory that gives the same doubles.)
\<close>

definition sum_fl :: "(real \<Rightarrow> real) \<Rightarrow> real list \<Rightarrow> real" where
  "sum_fl fl values = foldl (\<lambda>total v. fl (total + v)) 0 values"

fun divide_items_fl ::
  "(real \<Rightarrow> real) \<Rightarrow> ('k \<times> real) list \<Rightarrow> real \<Rightarrow> error + ('k \<times> real) list" where
  "divide_items_fl fl [] statistic_probability_sum = Inr []"
| "divide_items_fl fl ((k, v) # rest) statistic_probability_sum =
     (if statistic_probability_sum = 0 then Inl ZeroDivisionError
      else case divide_items_fl fl rest statistic_probability_sum of
             Inl e \<Rightarrow> Inl e
           | Inr rest' \<Rightarrow> Inr ((k, fl (v / statistic_probability_sum)) # rest'))"

definition normalize_statistic_fl ::
  "(real \<Rightarrow> real) \<Rightarrow> ('k \<times> real) list \<Rightarrow> error + ('k \<times> real) list" where
  "normalize_statistic_fl fl d = divide_items_fl fl d (sum_fl fl (map snd d))"

fun normalize_probabilities_fl :: "(real \<Rightarrow> real) \<Rightarrow> probabilities \<Rightarrow> error + probabilities"
  where
  "normalize_probabilities_fl fl [] = Inr []"
| "normalize_probabilities_fl fl ((person, d) # rest) =
     (case normalize_statistic_fl fl (gene_dist d) of
        Inl e \<Rightarrow> Inl e
      | Inr g \<Rightarrow>
          (case normalize_statistic_fl fl (trait_dist d) of
             Inl e \<Rightarrow> Inl e
           | Inr t \<Rightarrow>
               (case normalize_probabilities_fl fl rest of
                  Inl e \<Rightarrow> Inl e
                | Inr rest' \<Rightarrow> Inr ((person, \<lparr>gene_dist = g, trait_dist = t\<rparr>) # rest'))))"

definition score_all_fl ::
  "(real \<Rightarrow> real) \<Rightarrow> (string set \<Rightarrow> string list) \<Rightarrow> population \<Rightarrow> string set
     \<Rightarrow> probabilities \<Rightarrow> error + probabilities" where
  "score_all_fl fl list_of people have_trait probs =
     (let names = set (map fst people) in
      for_each (powerset list_of names)
        (\<lambda>one_gene.
           for_each (powerset list_of (names - one_gene))
             (\<lambda>two_genes probs'.
                case joint_probability_fl fl people one_gene two_genes have_trait of
                  Inl e \<Rightarrow> Inl e
                | Inr p \<Rightarrow> update_fl fl probs' one_gene two_genes have_trait p))
        probs)"

definition main_step_fl ::
  "(real \<Rightarrow> real) \<Rightarrow> (string set \<Rightarrow> string list) \<Rightarrow> population \<Rightarrow> string set
     \<Rightarrow> probabilities \<Rightarrow> error + probabilities" where
  "main_step_fl fl list_of people have_trait probs =
     (if fails_evidence people have_trait then Inr probs
      else score_all_fl fl list_of people have_trait probs)"

definition main_loop_fl ::
  "(real \<Rightarrow> real) \<Rightarrow> (string set \<Rightarrow> string list) \<Rightarrow> population
     \<Rightarrow> error + probabilities" where
  "main_loop_fl fl list_of people =
     for_each (powerset list_of (set (map fst people))) (main_step_fl fl list_of people)
       (initial_probabilities people)"

definition main_fl ::
  "(real \<Rightarrow> real) \<Rightarrow> (string set \<Rightarrow> string list) \<Rightarrow> population
     \<Rightarrow> error + probabilities" where
  "main_fl fl list_of people =
     (case main_loop_fl fl list_of people of
        Inl e \<Rightarrow> Inl e
      | Inr probs \<Rightarrow> normalize_probabilities_fl fl probs)"

definition update_all_fl ::
  "(real \<Rightarrow> real) \<Rightarrow> (string set \<times> string set \<times> string set \<times> real) list \<Rightarrow> probabilities
     \<Rightarrow> error + probabilities" where
  "update_all_fl fl calls probs =
     for_each calls
       (\<lambda>(one_gene, two_genes, have_trait, p) probs'.
          update_fl fl probs' one_gene two_genes have_trait p)
       probs"

section \<open>What \<^verbatim>\<open>joint_probability\<close> computes\<close>

lemma person_gene_count_cases:
  "person_gene_count one_gene two_genes person = 0 \<or>
   person_gene_count one_gene two_genes person = 1 \<or>
   person_gene_count one_gene two_genes person = 2"
  by (simp add: person_gene_count_def)

lemma getitem_PROBS_gene:
  "getitem PROBS_gene (person_gene_count one_gene two_genes person) =
     Inr (prior (person_gene_count one_gene two_genes person))"
  by (simp add: getitem_def PROBS_gene_def prior_def person_gene_count_def)

lemma parent_dict_mother:
  "parent_gene_inheritance_probability one_gene two_genes [m, f] m =
     Some (transmit (person_gene_count one_gene two_genes m))"
  by (simp add: parent_gene_inheritance_probability_def transmit_def person_gene_count_def)

lemma parent_dict_father:
  "parent_gene_inheritance_probability one_gene two_genes [m, f] f =
     Some (transmit (person_gene_count one_gene two_genes f))"
  by (simp add: parent_gene_inheritance_probability_def transmit_def person_gene_count_def)

lemma gene_step_eq:
  "gene_step one_gene two_genes person r x =
     Inr (x * gene_factor one_gene two_genes person r)"
proof (cases "mother r")
  case None
  then show ?thesis
    by (simp add: gene_step_def gene_factor_def getitem_PROBS_gene)
next
  case (Some m)
  note m = this
  show ?thesis
  proof (cases "father r")
    case None
    with m show ?thesis
      by (simp add: gene_step_def gene_factor_def getitem_PROBS_gene)
  next
    case (Some f)
    with m show ?thesis
      using person_gene_count_cases [of one_gene two_genes person]
      by (auto simp add: gene_step_def gene_factor_def parent_dict_mother parent_dict_father
          inherit_def Let_def)
  qed
qed

lemma trait_step_eq:
  "trait_step one_gene two_genes have_trait person x =
     Inr (x * trait_given_gene (person_gene_count one_gene two_genes person)
                (person \<in> have_trait))"
  by (simp add: trait_step_def getitem_def PROBS_trait_def trait_given_gene_def
      person_gene_count_def)

lemma joint_probability_loop_eq:
  "joint_probability_loop one_gene two_genes have_trait people x =
     Inr (x * prod_list (map (person_factor one_gene two_genes have_trait) people))"
proof (induction people arbitrary: x)
  case Nil
  show ?case by simp
next
  case (Cons pr people)
  obtain person r where pr: "pr = (person, r)" by (cases pr)
  show ?case
    by (simp add: pr gene_step_eq trait_step_eq Cons.IH person_factor_def mult.assoc)
qed

lemma joint_probability_eq:
  "joint_probability people one_gene two_genes have_trait =
     Inr (joint people one_gene two_genes have_trait)"
  by (simp add: joint_probability_def joint_probability_loop_eq joint_def)

lemma gene_factor_paired:
  "(mother r = None) = (father r = None) \<Longrightarrow>
     gene_factor one_gene two_genes person r = gene_term one_gene two_genes person r"
  by (cases "mother r"; cases "father r") (simp_all add: gene_factor_def gene_term_def founder_def)

section \<open>What \<^verbatim>\<open>main\<close> accumulates\<close>

lemma initial_belief:
  "initial_probabilities people = belief (map fst people) (\<lambda>_ _. 0) (\<lambda>_ _. 0)"
  by (simp add: initial_probabilities_def belief_def case_prod_unfold)

lemma update_belief:
  "update (belief names G T) one_gene two_genes have_trait p =
     Inr (belief names
            (\<lambda>n g. G n g + (if g = person_gene_count one_gene two_genes n then p else 0))
            (\<lambda>n b. T n b + (if b = (n \<in> have_trait) then p else 0)))"
proof (induction names)
  case Nil
  show ?case by (simp add: belief_def)
next
  case (Cons n names)
  have tail: "belief (n # names) G' T' =
      (n, \<lparr>gene_dist = [(2, G' n 2), (1, G' n 1), (0, G' n 0)],
            trait_dist = [(True, T' n True), (False, T' n False)]\<rparr>) # belief names G' T'"
    for G' T'
    by (simp add: belief_def)
  show ?case
    unfolding tail
    by (simp add: Cons.IH iadd_item_def person_gene_count_def)
qed

lemma for_each_belief:
  assumes "\<And>x G T. x \<in> set xs \<Longrightarrow>
             body x (belief ns G T) =
               Inr (belief ns (\<lambda>n g. G n g + dG x n g) (\<lambda>n b. T n b + dT x n b))"
  shows "for_each xs body (belief ns G T) =
           Inr (belief ns (\<lambda>n g. G n g + (\<Sum>x\<leftarrow>xs. dG x n g))
                          (\<lambda>n b. T n b + (\<Sum>x\<leftarrow>xs. dT x n b)))"
  using assms
proof (induction xs arbitrary: G T)
  case Nil
  show ?case by simp
next
  case (Cons x xs)
  have step: "body x (belief ns G T) =
      Inr (belief ns (\<lambda>n g. G n g + dG x n g) (\<lambda>n b. T n b + dT x n b))"
    by (rule Cons.prems) simp
  have rest: "for_each xs body (belief ns G' T') =
      Inr (belief ns (\<lambda>n g. G' n g + (\<Sum>x\<leftarrow>xs. dG x n g))
                     (\<lambda>n b. T' n b + (\<Sum>x\<leftarrow>xs. dT x n b)))" for G' T'
    by (rule Cons.IH) (simp add: Cons.prems)
  show ?case
    by (simp add: step rest add.assoc)
qed

lemma score_all_belief:
  "score_all list_of people have_trait (belief ns G T) =
     Inr (belief ns
       (\<lambda>n g. G n g +
          over_partitions list_of people (\<lambda>one_gene two_genes. gene_mass people have_trait one_gene two_genes n g))
       (\<lambda>n b. T n b +
          over_partitions list_of people (\<lambda>one_gene two_genes. trait_mass people have_trait one_gene two_genes n b)))"
proof -
  have inner: "for_each (powerset list_of (set (map fst people) - one_gene))
       (\<lambda>two_genes probs'.
          case joint_probability people one_gene two_genes have_trait of
            Inl e \<Rightarrow> Inl e
          | Inr p \<Rightarrow> update probs' one_gene two_genes have_trait p)
       (belief ns G' T') =
     Inr (belief ns
       (\<lambda>n g. G' n g + (\<Sum>two_genes\<leftarrow>powerset list_of (set (map fst people) - one_gene).
                           gene_mass people have_trait one_gene two_genes n g))
       (\<lambda>n b. T' n b + (\<Sum>two_genes\<leftarrow>powerset list_of (set (map fst people) - one_gene).
                           trait_mass people have_trait one_gene two_genes n b)))"
    for one_gene G' T'
    by (rule for_each_belief)
       (simp add: joint_probability_eq update_belief gene_mass_def trait_mass_def)
  show ?thesis
    unfolding score_all_def Let_def over_partitions_def
    by (rule for_each_belief) (rule inner)
qed

lemma main_step_belief:
  "main_step list_of people have_trait (belief ns G T) =
     Inr (belief ns
       (\<lambda>n g. G n g +
          (if fails_evidence people have_trait then 0
           else over_partitions list_of people
                  (\<lambda>one_gene two_genes. gene_mass people have_trait one_gene two_genes n g)))
       (\<lambda>n b. T n b +
          (if fails_evidence people have_trait then 0
           else over_partitions list_of people
                  (\<lambda>one_gene two_genes. trait_mass people have_trait one_gene two_genes n b))))"
  by (simp add: main_step_def score_all_belief)

lemma main_loop_belief:
  "main_loop list_of people =
     Inr (belief (map fst people)
       (\<lambda>n g. over_assignments list_of people
                 (\<lambda>have_trait one_gene two_genes. gene_mass people have_trait one_gene two_genes n g))
       (\<lambda>n b. over_assignments list_of people
                 (\<lambda>have_trait one_gene two_genes. trait_mass people have_trait one_gene two_genes n b)))"
proof -
  have "for_each (powerset list_of (set (map fst people))) (main_step list_of people)
          (belief (map fst people) (\<lambda>_ _. 0) (\<lambda>_ _. 0)) =
        Inr (belief (map fst people)
          (\<lambda>n g. 0 + (\<Sum>have_trait\<leftarrow>powerset list_of (set (map fst people)).
             if fails_evidence people have_trait then 0
             else over_partitions list_of people
                    (\<lambda>one_gene two_genes. gene_mass people have_trait one_gene two_genes n g)))
          (\<lambda>n b. 0 + (\<Sum>have_trait\<leftarrow>powerset list_of (set (map fst people)).
             if fails_evidence people have_trait then 0
             else over_partitions list_of people
                    (\<lambda>one_gene two_genes. trait_mass people have_trait one_gene two_genes n b))))"
    by (rule for_each_belief) (rule main_step_belief)
  then show ?thesis
    by (simp add: main_loop_def initial_belief over_assignments_def)
qed

lemma divide_items_eq:
  "s \<noteq> 0 \<Longrightarrow> divide_items d s = Inr (map (\<lambda>(k, v). (k, v / s)) d)"
  by (induction d) auto

lemma normalize_belief:
  assumes "\<And>n. n \<in> set ns \<Longrightarrow> G n 2 + G n 1 + G n 0 \<noteq> 0 \<and> T n True + T n False \<noteq> 0"
  shows "normalize_probabilities (belief ns G T) =
           Inr (belief ns (\<lambda>n g. G n g / (G n 2 + G n 1 + G n 0))
                          (\<lambda>n b. T n b / (T n True + T n False)))"
  using assms
proof (induction ns)
  case Nil
  show ?case by (simp add: belief_def)
next
  case (Cons n ns)
  have tail: "belief (n # ns) G' T' =
      (n, \<lparr>gene_dist = [(2, G' n 2), (1, G' n 1), (0, G' n 0)],
            trait_dist = [(True, T' n True), (False, T' n False)]\<rparr>) # belief ns G' T'"
    for G' T'
    by (simp add: belief_def)
  have nz: "G n 2 + G n 1 + G n 0 \<noteq> 0" "T n True + T n False \<noteq> 0"
    using Cons.prems [of n] by simp_all
  have IH: "normalize_probabilities (belief ns G T) =
           Inr (belief ns (\<lambda>n g. G n g / (G n 2 + G n 1 + G n 0))
                          (\<lambda>n b. T n b / (T n True + T n False)))"
    by (rule Cons.IH) (simp add: Cons.prems)
  have g: "normalize_statistic [(2::int, G n 2), (1, G n 1), (0, G n 0)] =
      Inr [(2, G n 2 / (G n 2 + G n 1 + G n 0)), (1, G n 1 / (G n 2 + G n 1 + G n 0)),
           (0, G n 0 / (G n 2 + G n 1 + G n 0))]"
    using nz(1) by (simp add: normalize_statistic_def add.assoc)
  have t: "normalize_statistic [(True, T n True), (False, T n False)] =
      Inr [(True, T n True / (T n True + T n False)), (False, T n False / (T n True + T n False))]"
    using nz(2) by (simp add: normalize_statistic_def)
  show ?case
    unfolding tail by (simp add: g t IH)
qed

lemma sum_list_pos_member:
  fixes f :: "'a \<Rightarrow> real"
  assumes "\<And>x. x \<in> set xs \<Longrightarrow> 0 \<le> f x" and "a \<in> set xs" and "0 < f a"
  shows "0 < (\<Sum>x\<leftarrow>xs. f x)"
proof -
  obtain ys zs where xs: "xs = ys @ a # zs"
    using assms(2) by (auto simp: in_set_conv_decomp)
  have "0 \<le> (\<Sum>x\<leftarrow>ys. f x)" "0 \<le> (\<Sum>x\<leftarrow>zs. f x)"
    by (rule sum_list_nonneg, auto simp: xs intro: assms(1))+
  then show ?thesis using assms(3) by (simp add: xs)
qed

lemma sum_list_pos_all:
  fixes f :: "'a \<Rightarrow> real"
  assumes "xs \<noteq> []" and "\<And>x. x \<in> set xs \<Longrightarrow> 0 < f x"
  shows "0 < (\<Sum>x\<leftarrow>xs. f x)"
proof (rule sum_list_pos_member)
  show "hd xs \<in> set xs" using assms(1) by simp
  then show "0 < f (hd xs)" by (rule assms(2))
  show "0 \<le> f x" if "x \<in> set xs" for x
    using assms(2) [OF that] by simp
qed

lemma combinations_filter:
  "filter P xs \<in> set (combinations xs (length (filter P xs)))"
proof (induction xs)
  case Nil
  show ?case by simp
next
  case (Cons x xs)
  show ?case
  proof (cases "P x")
    case True
    with Cons show ?thesis by simp
  next
    case False
    with Cons show ?thesis
      by (cases "length (filter P xs)") auto
  qed
qed

lemma powerset_nonempty: "powerset list_of s \<noteq> []"
proof -
  have "{} \<in> set (powerset list_of s)"
    unfolding powerset_def Let_def
    by (auto simp: image_iff intro!: bexI [of _ 0] exI [of _ "[]"])
  then show ?thesis by auto
qed

lemma powerset_complete:
  assumes "set (list_of s) = s" and "A \<subseteq> s"
  shows "A \<in> set (powerset list_of s)"
proof -
  let ?l = "list_of s"
  let ?ys = "filter (\<lambda>x. x \<in> A) ?l"
  have "?ys \<in> set (combinations ?l (length ?ys))"
    by (rule combinations_filter)
  moreover have "length ?ys < length ?l + 1"
    by (simp add: less_Suc_eq_le)
  moreover have "set ?ys = A"
    using assms by auto
  ultimately have "set ?ys \<in> set (map set (concat (map (combinations ?l) [0..<length ?l + 1])))"
    unfolding set_map set_concat
    by (intro imageI UN_I [of "combinations ?l (length ?ys)"]) auto
  then show ?thesis
    unfolding powerset_def Let_def \<open>set ?ys = A\<close> .
qed

lemma prior_pos: "0 < prior g"
  by (simp add: prior_def)

lemma trait_given_gene_pos: "0 < trait_given_gene g t"
  by (simp add: trait_given_gene_def)

lemma transmit_bounds: "0 < transmit c \<and> transmit c < 1"
  by (simp add: transmit_def PROBS_mutation_def)

lemma inherit_pos:
  assumes "0 < m" "m < 1" "0 < f" "f < 1"
  shows "0 < inherit c m f"
proof -
  have a: "0 < (1 - m) * (1 - f)" and b: "0 < m * (1 - f)" and c: "0 < (1 - m) * f"
    and d: "0 < m * f"
    using assms by simp_all
  from b c have "0 < m * (1 - f) + (1 - m) * f" by (rule add_pos_pos)
  with a d show ?thesis by (simp add: inherit_def)
qed

lemma gene_factor_pos: "0 < gene_factor one_gene two_genes person r"
  using transmit_bounds
  by (auto simp: gene_factor_def prior_pos split: option.splits intro!: inherit_pos)

lemma person_factor_pos: "0 < person_factor one_gene two_genes have_trait pr"
  by (simp add: person_factor_def gene_factor_pos trait_given_gene_pos)

lemma prod_list_pos:
  fixes f :: "'a \<Rightarrow> real"
  shows "(\<And>x. 0 < f x) \<Longrightarrow> 0 < prod_list (map f xs)"
  by (induction xs) simp_all

lemma joint_pos: "0 < joint people one_gene two_genes have_trait"
  unfolding joint_def by (rule prod_list_pos) (rule person_factor_pos)

lemma over_partitions_add:
  "over_partitions list_of people (\<lambda>a b. f a b + g a b) =
     over_partitions list_of people f + over_partitions list_of people g"
  by (simp add: over_partitions_def sum_list_addf)

lemma over_assignments_add:
  "over_assignments list_of people (\<lambda>h a b. f h a b + g h a b) =
     over_assignments list_of people f + over_assignments list_of people g"
proof -
  have "(\<lambda>h. if fails_evidence people h then 0
             else over_partitions list_of people (\<lambda>a b. f h a b + g h a b)) =
        (\<lambda>h. (if fails_evidence people h then 0 else over_partitions list_of people (f h)) +
             (if fails_evidence people h then 0 else over_partitions list_of people (g h)))"
    by (rule ext) (simp add: over_partitions_add)
  then show ?thesis
    by (simp add: over_assignments_def sum_list_addf)
qed

lemma over_assignments_zero:
  assumes "\<And>h a b. \<not> fails_evidence people h \<Longrightarrow> f h a b = 0"
  shows "over_assignments list_of people f = 0"
proof -
  have "(if fails_evidence people h then 0 else over_partitions list_of people (f h)) = 0"
    for h
    by (simp add: over_partitions_def assms)
  then show ?thesis
    by (simp add: over_assignments_def)
qed

lemma gene_mass_sum:
  "gene_mass people h a b n 2 + gene_mass people h a b n 1 + gene_mass people h a b n 0 =
     joint people a b h"
  using person_gene_count_cases [of a b n]
  by (auto simp: gene_mass_def)

lemma trait_mass_sum:
  "trait_mass people h a b n True + trait_mass people h a b n False = joint people a b h"
  by (simp add: trait_mass_def)

lemma gene_total:
  "over_assignments list_of people (\<lambda>h a b. gene_mass people h a b n 2) +
   over_assignments list_of people (\<lambda>h a b. gene_mass people h a b n 1) +
   over_assignments list_of people (\<lambda>h a b. gene_mass people h a b n 0) =
     total_mass list_of people"
  unfolding total_mass_def
  by (simp only: over_assignments_add [symmetric] gene_mass_sum)

lemma trait_total:
  "over_assignments list_of people (\<lambda>h a b. trait_mass people h a b n True) +
   over_assignments list_of people (\<lambda>h a b. trait_mass people h a b n False) =
     total_mass list_of people"
  unfolding total_mass_def
  by (simp only: over_assignments_add [symmetric] trait_mass_sum)

lemma over_partitions_pos:
  assumes "\<And>a b. 0 < f a b"
  shows "0 < over_partitions list_of people f"
  unfolding over_partitions_def
proof (rule sum_list_pos_all)
  show "powerset list_of (set (map fst people)) \<noteq> []"
    by (rule powerset_nonempty)
  show "0 < (\<Sum>b\<leftarrow>powerset list_of (set (map fst people) - a). f a b)" for a
    by (rule sum_list_pos_all) (simp_all add: powerset_nonempty assms)
qed

lemma fails_evidence_iff:
  "fails_evidence people H \<longleftrightarrow>
     (\<exists>person r. (person, r) \<in> set people \<and> trait r \<noteq> None \<and> trait r \<noteq> Some (person \<in> H))"
  unfolding fails_evidence_def Bex_def by (simp only: split_paired_Ex prod.case)

lemma consistent_exists:
  assumes "distinct (map fst people)"
  shows "\<not> fails_evidence people {n. \<exists>r. (n, r) \<in> set people \<and> trait r = Some True}"
proof
  let ?H = "{n. \<exists>r. (n, r) \<in> set people \<and> trait r = Some True}"
  assume "fails_evidence people ?H"
  then obtain person r where mem: "(person, r) \<in> set people"
    and known: "trait r \<noteq> None" and differs: "trait r \<noteq> Some (person \<in> ?H)"
    unfolding fails_evidence_iff by (elim exE conjE)
  from known obtain b where b: "trait r = Some b"
    by (cases "trait r") simp_all
  show False
  proof (cases b)
    case True
    from mem b True have "\<exists>r. (person, r) \<in> set people \<and> trait r = Some True"
      by (intro exI [of _ r]) simp
    then have "person \<in> ?H" by (simp only: mem_Collect_eq)
    with differs b True show False by (simp only: simp_thms)
  next
    case False
    have "person \<notin> ?H"
    proof
      assume "person \<in> ?H"
      then have "\<exists>r. (person, r) \<in> set people \<and> trait r = Some True"
        by (simp only: mem_Collect_eq)
      then obtain r' where r': "(person, r') \<in> set people" "trait r' = Some True"
        by (elim exE conjE)
      have "r' = r" using eq_key_imp_eq_value [OF assms r'(1) mem] .
      with r'(2) b False show False by simp
    qed
    with differs b False show False by (simp only: simp_thms)
  qed
qed

lemma total_mass_pos:
  assumes "distinct (map fst people)" and "lists_sets list_of (set (map fst people))"
  shows "0 < total_mass list_of people"
proof -
  let ?H = "{n. \<exists>r. (n, r) \<in> set people \<and> trait r = Some True}"
  have "n \<in> set (map fst people)" if "n \<in> ?H" for n
  proof -
    from that obtain r where "(n, r) \<in> set people" by (simp only: mem_Collect_eq) (elim exE conjE)
    then have "fst (n, r) \<in> fst ` set people" by (rule imageI)
    then show ?thesis by simp
  qed
  then have sub: "?H \<subseteq> set (map fst people)" by (rule subsetI)
  have "set (list_of (set (map fst people))) = set (map fst people)"
    using assms(2) unfolding lists_sets_def by (elim allE [of _ "set (map fst people)"]) simp
  then have H: "?H \<in> set (powerset list_of (set (map fst people)))"
    using sub by (rule powerset_complete)
  have pos: "0 < over_partitions list_of people (\<lambda>a b. joint people a b h)" for h
    by (rule over_partitions_pos) (rule joint_pos)
  show ?thesis
    unfolding total_mass_def over_assignments_def
  proof (rule sum_list_pos_member [OF _ H])
    show "0 < (if fails_evidence people ?H then 0
               else over_partitions list_of people (\<lambda>a b. joint people a b ?H))"
      by (simp only: consistent_exists [OF assms(1)] if_False pos)
    show "0 \<le> (if fails_evidence people h then 0
               else over_partitions list_of people (\<lambda>a b. joint people a b h))" for h
      using pos [of h] by (simp only: split: if_splits) simp
  qed
qed

lemma main_eq:
  assumes "distinct (map fst people)" and "lists_sets list_of (set (map fst people))"
  shows "main list_of people =
     Inr (belief (map fst people)
       (\<lambda>n g. over_assignments list_of people (\<lambda>h a b. gene_mass people h a b n g) /
                total_mass list_of people)
       (\<lambda>n b. over_assignments list_of people (\<lambda>h a c. trait_mass people h a c n b) /
                total_mass list_of people))"
proof -
  have nz: "total_mass list_of people \<noteq> 0"
    using total_mass_pos [OF assms] by simp
  have "normalize_probabilities (belief (map fst people)
       (\<lambda>n g. over_assignments list_of people (\<lambda>h a b. gene_mass people h a b n g))
       (\<lambda>n b. over_assignments list_of people (\<lambda>h a c. trait_mass people h a c n b))) =
     Inr (belief (map fst people)
       (\<lambda>n g. over_assignments list_of people (\<lambda>h a b. gene_mass people h a b n g) /
                total_mass list_of people)
       (\<lambda>n b. over_assignments list_of people (\<lambda>h a c. trait_mass people h a c n b) /
                total_mass list_of people))"
    by (subst normalize_belief) (simp_all only: gene_total trait_total nz not_False_eq_True simp_thms)
  then show ?thesis
    unfolding main_def main_loop_belief by (simp only: sum.case)
qed

section \<open>Further facts about the loops\<close>

lemma contradicts_evidence_iff:
  "contradicts_evidence people H \<longleftrightarrow>
     (\<exists>person r. (person, r) \<in> set people \<and>
        ((trait r = Some True \<and> person \<notin> H) \<or> (trait r = Some False \<and> person \<in> H)))"
  unfolding contradicts_evidence_def Bex_def by (simp only: split_paired_Ex prod.case)

lemma evidence_disagrees:
  "(t \<noteq> None \<and> t \<noteq> Some b) = ((t = Some True \<and> \<not> b) \<or> (t = Some False \<and> b))"
  by (cases t; cases b) auto

lemma fails_evidence_contradicts:
  "fails_evidence people have_trait = contradicts_evidence people have_trait"
  unfolding fails_evidence_iff contradicts_evidence_iff
  by (simp only: evidence_disagrees)

lemma for_each_skip:
  "for_each xs (\<lambda>x s. if c x then Inr s else body x s) s =
     for_each (filter (\<lambda>x. \<not> c x) xs) body s"
  by (induction xs arbitrary: s) (simp_all split: sum.splits)

lemma sum_list_divided:
  fixes d :: "('k \<times> real) list"
  shows "sum_list (map snd (map (\<lambda>(k, v). (k, v / s)) d)) = sum_list (map snd d) / s"
  by (induction d) (auto simp: add_divide_distrib)

lemma normalize_statistic_ok:
  assumes "sum_list (map snd d) \<noteq> 0"
  shows "\<exists>d'. normalize_statistic d = Inr d' \<and> normalized_from d d'"
proof -
  let ?d' = "map (\<lambda>(k, v). (k, v / sum_list (map snd d))) d"
  have "normalize_statistic d = Inr ?d'"
    unfolding normalize_statistic_def using assms by (rule divide_items_eq)
  moreover have "sum_list (map snd ?d') = 1"
    using assms by (simp only: sum_list_divided) simp
  ultimately show ?thesis
    unfolding normalized_from_def by simp
qed

lemma divide_items_error:
  "divide_items d s = Inl e \<Longrightarrow> e = ZeroDivisionError"
  by (induction d) (auto split: if_splits sum.splits)

lemma divide_items_zero:
  "d \<noteq> [] \<Longrightarrow> divide_items d 0 = Inl ZeroDivisionError"
  by (cases d) auto

lemma normalize_probabilities_error:
  "normalize_probabilities probs = Inl e \<Longrightarrow> e = ZeroDivisionError"
proof (induction probs)
  case Nil
  then show ?case by simp
next
  case (Cons pd probs)
  obtain person d where pd: "pd = (person, d)" by (cases pd)
  from Cons show ?case
    by (auto simp: pd normalize_statistic_def split: sum.splits dest: divide_items_error)
qed

lemma normalize_probabilities_zero:
  assumes "(person, d) \<in> set probs"
    and "(gene_dist d \<noteq> [] \<and> sum_list (map snd (gene_dist d)) = 0) \<or>
         (trait_dist d \<noteq> [] \<and> sum_list (map snd (trait_dist d)) = 0)"
  shows "\<exists>e. normalize_probabilities probs = Inl e"
  using assms(1)
proof (induction probs)
  case Nil
  then show ?case by simp
next
  case (Cons pd probs)
  obtain person' d' where pd: "pd = (person', d')" by (cases pd)
  show ?case
  proof (cases "pd = (person, d)")
    case True
    with pd have eq: "person' = person" "d' = d" by simp_all
    from assms(2) show ?thesis
    proof
      assume "gene_dist d \<noteq> [] \<and> sum_list (map snd (gene_dist d)) = 0"
      then show ?thesis
        by (simp add: pd eq normalize_statistic_def divide_items_zero)
    next
      assume z: "trait_dist d \<noteq> [] \<and> sum_list (map snd (trait_dist d)) = 0"
      then have "normalize_statistic (trait_dist d) = Inl ZeroDivisionError"
        by (simp add: normalize_statistic_def divide_items_zero)
      then show ?thesis
        by (simp add: pd eq split: sum.splits)
    qed
  next
    case False
    with Cons.prems have "(person, d) \<in> set probs" by simp
    from Cons.IH [OF this] obtain e where "normalize_probabilities probs = Inl e" ..
    then show ?thesis
      by (simp add: pd split: sum.splits)
  qed
qed

lemma belief_member:
  "(person, d) \<in> set (belief names G T) \<Longrightarrow>
     d = \<lparr>gene_dist = [(2, G person 2), (1, G person 1), (0, G person 0)],
          trait_dist = [(True, T person True), (False, T person False)]\<rparr>"
  by (induction names) (auto simp: belief_def)

lemma belief_has:
  "person \<in> set names \<Longrightarrow>
     (person, \<lparr>gene_dist = [(2, G person 2), (1, G person 1), (0, G person 0)],
               trait_dist = [(True, T person True), (False, T person False)]\<rparr>)
       \<in> set (belief names G T)"
  by (induction names) (auto simp: belief_def)

lemma belief_names: "map fst (belief names G T) = names"
  by (simp add: belief_def comp_def)

lemma evidence_true_member:
  assumes "(person, r) \<in> set people" and "trait r = Some True"
    and "\<not> fails_evidence people h"
  shows "person \<in> h"
proof (rule ccontr)
  assume "person \<notin> h"
  with assms(1,2) have "\<exists>person r. (person, r) \<in> set people \<and>
      trait r \<noteq> None \<and> trait r \<noteq> Some (person \<in> h)"
    by (intro exI [of _ person] exI [of _ r]) simp
  then have "fails_evidence people h" by (simp only: fails_evidence_iff)
  with assms(3) show False by (rule notE)
qed

lemma lists_sets_listed_in:
  "distinct order \<Longrightarrow> lists_sets (listed_in order) (set order)"
  unfolding lists_sets_def listed_in_def by auto

lemma lists_sets_empty:
  assumes "lists_sets list_of U"
  shows "list_of {} = []"
proof -
  from assms have "set (list_of {}) = {}"
    unfolding lists_sets_def by (elim allE [of _ "{}"]) simp
  then show ?thesis by simp
qed

lemma lists_sets_single:
  assumes "lists_sets list_of U" and "x \<in> U"
  shows "list_of {x} = [x]"
proof -
  from assms have s: "set (list_of {x}) = {x}" and d: "distinct (list_of {x})"
    unfolding lists_sets_def by (elim allE [of _ "{x}"]; simp)+
  show ?thesis
  proof (cases "list_of {x}")
    case Nil
    with s show ?thesis by simp
  next
    case (Cons a l)
    with s have a: "a = x" and sub: "set l \<subseteq> {x}" by auto
    from d Cons a have nx: "x \<notin> set l" by simp
    have "l = []"
    proof (cases l)
      case Nil
      then show ?thesis .
    next
      case (Cons b m)
      with sub have "b = x" by simp
      with nx Cons show ?thesis by simp
    qed
    with Cons a show ?thesis by simp
  qed
qed

lemma powerset_empty:
  "lists_sets list_of U \<Longrightarrow> powerset list_of {} = [{}]"
  by (simp add: powerset_def lists_sets_empty)

lemma powerset_single:
  "lists_sets list_of U \<Longrightarrow> x \<in> U \<Longrightarrow> powerset list_of {x} = [{}, {x}]"
  by (simp add: powerset_def lists_sets_single numeral_2_eq_2)

lemma inherit_commute: "inherit c m f = inherit c f m"
  by (simp add: inherit_def algebra_simps)

lemma gene_factor_swap:
  "gene_factor one_gene two_genes person (r\<lparr>mother := father r, father := mother r\<rparr>) =
     gene_factor one_gene two_genes person r"
proof (cases "mother r")
  case None
  then show ?thesis
    by (cases "father r") (simp_all add: gene_factor_def)
next
  case (Some m)
  note m = this
  show ?thesis
  proof (cases "father r")
    case None
    with m show ?thesis by (simp add: gene_factor_def)
  next
    case (Some f)
    have "inherit (person_gene_count one_gene two_genes person)
            (transmit (person_gene_count one_gene two_genes f))
            (transmit (person_gene_count one_gene two_genes m)) =
          inherit (person_gene_count one_gene two_genes person)
            (transmit (person_gene_count one_gene two_genes m))
            (transmit (person_gene_count one_gene two_genes f))"
      by (rule inherit_commute)
    with m Some show ?thesis by (simp add: gene_factor_def)
  qed
qed

lemma joint_swap:
  "joint (swap_parents children people) one_gene two_genes have_trait =
     joint people one_gene two_genes have_trait"
proof -
  have "map (person_factor one_gene two_genes have_trait) (swap_parents children people) =
        map (person_factor one_gene two_genes have_trait) people"
    unfolding swap_parents_def map_map
  proof (rule map_cong [OF refl])
    fix pr assume "pr \<in> set people"
    obtain person r where pr: "pr = (person, r)" by (cases pr)
    show "(person_factor one_gene two_genes have_trait \<circ>
           (\<lambda>(person, r). (person, if person \<in> children
                                     then r\<lparr>mother := father r, father := mother r\<rparr> else r))) pr =
          person_factor one_gene two_genes have_trait pr"
      by (simp add: pr person_factor_def gene_factor_swap)
  qed
  then show ?thesis by (simp only: joint_def)
qed

lemma joint_probability_swap:
  "joint_probability (swap_parents children people) =  joint_probability people"
  by (intro ext) (simp only: joint_probability_eq joint_swap)

lemma names_swap: "map fst (swap_parents children people) = map fst people"
  by (induction people) (auto simp: swap_parents_def)

lemma initial_swap:
  "initial_probabilities (swap_parents children people) = initial_probabilities people"
  by (simp only: initial_belief names_swap)

lemma fails_evidence_Cons:
  "fails_evidence ((person, r) # people) h =
     ((trait r \<noteq> None \<and> trait r \<noteq> Some (person \<in> h)) \<or> fails_evidence people h)"
  by (simp add: fails_evidence_def)

lemma fails_evidence_swap:
  "fails_evidence (swap_parents children people) = fails_evidence people"
proof (intro ext)
  fix h
  show "fails_evidence (swap_parents children people) h = fails_evidence people h"
  proof (induction people)
    case Nil
    show ?case by (simp add: swap_parents_def)
  next
    case (Cons pr people)
    obtain person r where pr: "pr = (person, r)" by (cases pr)
    have "swap_parents children (pr # people) =
        (person, if person \<in> children then r\<lparr>mother := father r, father := mother r\<rparr> else r)
          # swap_parents children people"
      by (simp add: swap_parents_def pr)
    then show ?case
      by (simp add: pr fails_evidence_Cons Cons.IH)
  qed
qed

lemma person_gene_count_diff:
  "person_gene_count one_gene (two_genes - one_gene) person =
     person_gene_count one_gene two_genes person"
  by (simp add: person_gene_count_def)

lemma joint_diff:
  "joint people one_gene (two_genes - one_gene) have_trait =
     joint people one_gene two_genes have_trait"
proof -
  have "person_factor one_gene (two_genes - one_gene) have_trait =
        person_factor one_gene two_genes have_trait"
    by (intro ext) (simp only: person_factor_def gene_factor_def person_gene_count_diff)
  then show ?thesis by (simp only: joint_def)
qed

lemma update_diff:
  "update probs one_gene (two_genes - one_gene) have_trait p =
     update probs one_gene two_genes have_trait p"
proof (induction probs)
  case Nil
  show ?case by simp
next
  case (Cons pd probs)
  obtain person d where pd: "pd = (person, d)" by (cases pd)
  show ?case
    by (simp only: pd update.simps person_gene_count_diff Cons.IH)
qed

lemma update_all_belief:
  "update_all calls (belief names G T) =
     Inr (belief names
       (\<lambda>n g. G n g + (\<Sum>(a, b, h, p)\<leftarrow>calls. if g = person_gene_count a b n then p else 0))
       (\<lambda>n t. T n t + (\<Sum>(a, b, h, p)\<leftarrow>calls. if t = (n \<in> h) then p else 0)))"
  unfolding update_all_def
  by (rule for_each_belief) (simp add: case_prod_unfold update_belief)

lemma gene_buckets_mass:
  "(\<Sum>(a, b, h, p)\<leftarrow>calls. if 2 = person_gene_count a b n then p else 0) +
   (\<Sum>(a, b, h, p)\<leftarrow>calls. if 1 = person_gene_count a b n then p else 0) +
   (\<Sum>(a, b, h, p)\<leftarrow>calls. if 0 = person_gene_count a b n then p else (0::real)) =
     mass_of calls"
proof (induction calls)
  case Nil
  show ?case by (simp add: mass_of_def)
next
  case (Cons c calls)
  obtain a b h p where c: "c = (a, b, h, p)" by (cases c)
  from Cons show ?case
    using person_gene_count_cases [of a b n]
    by (auto simp: c mass_of_def)
qed

lemma trait_buckets_mass:
  "(\<Sum>(a, b, h, p)\<leftarrow>calls. if True = (n \<in> h) then p else 0) +
   (\<Sum>(a, b, h, p)\<leftarrow>calls. if False = (n \<in> h) then p else (0::real)) =
     mass_of calls"
proof (induction calls)
  case Nil
  show ?case by (simp add: mass_of_def)
next
  case (Cons c calls)
  obtain a b h p where c: "c = (a, b, h, p)" by (cases c)
  from Cons show ?case
    by (auto simp: c mass_of_def)
qed

section \<open>Facts about the program in double precision\<close>

text \<open>
  With the identity for the rounding, the functions with rounding are the functions of the
  first sections.
\<close>

lemma PROBS_fl_id:
  "PROBS_gene_fl (\<lambda>x. x) = PROBS_gene" "PROBS_trait_fl (\<lambda>x. x) = PROBS_trait"
  "PROBS_mutation_fl (\<lambda>x. x) = PROBS_mutation"
  by (simp_all add: PROBS_gene_fl_def PROBS_gene_def PROBS_trait_fl_def PROBS_trait_def
      PROBS_mutation_fl_def PROBS_mutation_def)

lemma parent_dict_fl_id:
  "parent_gene_inheritance_probability_fl (\<lambda>x. x) = parent_gene_inheritance_probability"
  by (intro ext)
     (simp only: parent_gene_inheritance_probability_fl_def
        parent_gene_inheritance_probability_def PROBS_fl_id)

lemma gene_step_fl_id: "gene_step_fl (\<lambda>x. x) = gene_step"
  by (intro ext) (simp only: gene_step_fl_def gene_step_def parent_dict_fl_id PROBS_fl_id)

lemma trait_step_fl_id: "trait_step_fl (\<lambda>x. x) = trait_step"
  by (intro ext) (simp only: trait_step_fl_def trait_step_def PROBS_fl_id)

lemma joint_probability_loop_fl_id:
  "joint_probability_loop_fl (\<lambda>x. x) one_gene two_genes have_trait people x =
     joint_probability_loop one_gene two_genes have_trait people x"
proof (induction people arbitrary: x)
  case Nil
  show ?case by simp
next
  case (Cons pr people)
  obtain person r where pr: "pr = (person, r)" by (cases pr)
  show ?case
    by (simp add: pr gene_step_fl_id trait_step_fl_id Cons.IH cong: sum.case_cong)
qed

lemma joint_probability_fl_id: "joint_probability_fl (\<lambda>x. x) = joint_probability"
  by (intro ext)
     (simp only: joint_probability_fl_def joint_probability_def joint_probability_loop_fl_id)

lemma iadd_item_fl_id: "iadd_item_fl (\<lambda>x. x) = iadd_item"
  by (intro ext) (simp only: iadd_item_fl_def iadd_item_def)

lemma update_fl_id:
  "update_fl (\<lambda>x. x) probs one_gene two_genes have_trait p =
     update probs one_gene two_genes have_trait p"
proof (induction probs)
  case Nil
  show ?case by simp
next
  case (Cons pd probs)
  obtain person d where pd: "pd = (person, d)" by (cases pd)
  show ?case
    by (simp only: pd update_fl.simps update.simps iadd_item_fl_id Cons.IH)
qed

lemma foldl_plus: "foldl (\<lambda>total v. total + v) a xs = a + sum_list xs" for a :: real
  by (induction xs arbitrary: a) simp_all

lemma sum_fl_id: "sum_fl (\<lambda>x. x) xs = sum_list xs"
  by (simp add: sum_fl_def foldl_plus)

lemma divide_items_fl_id: "divide_items_fl (\<lambda>x. x) d s = divide_items d s"
  by (induction d) auto

lemma normalize_statistic_fl_id: "normalize_statistic_fl (\<lambda>x. x) d = normalize_statistic d"
  by (simp only: normalize_statistic_fl_def normalize_statistic_def sum_fl_id
      divide_items_fl_id)

lemma normalize_probabilities_fl_id:
  "normalize_probabilities_fl (\<lambda>x. x) probs = normalize_probabilities probs"
proof (induction probs)
  case Nil
  show ?case by simp
next
  case (Cons pd probs)
  obtain person d where pd: "pd = (person, d)" by (cases pd)
  show ?case
    by (simp only: pd normalize_probabilities_fl.simps normalize_probabilities.simps
        normalize_statistic_fl_id Cons.IH)
qed

lemma main_fl_id: "main_fl (\<lambda>x. x) list_of people = main list_of people"
proof -
  have u: "update_fl (\<lambda>x. x) = update"
    by (intro ext) (rule update_fl_id)
  have "main_loop_fl (\<lambda>x. x) list_of people = main_loop list_of people"
    unfolding main_loop_fl_def main_loop_def main_step_fl_def main_step_def
      score_all_fl_def score_all_def
    by (simp only: joint_probability_fl_id u)
  then show ?thesis
    by (simp only: main_fl_def main_def normalize_probabilities_fl_id)
qed

lemma update_fl_belief:
  "update_fl fl (belief names G T) one_gene two_genes have_trait p =
     Inr (belief names
            (\<lambda>n g. if g = person_gene_count one_gene two_genes n then fl (G n g + p)
                   else G n g)
            (\<lambda>n b. if b = (n \<in> have_trait) then fl (T n b + p) else T n b))"
proof (induction names)
  case Nil
  show ?case by (simp add: belief_def)
next
  case (Cons n names)
  have tail: "belief (n # names) G' T' =
      (n, \<lparr>gene_dist = [(2, G' n 2), (1, G' n 1), (0, G' n 0)],
            trait_dist = [(True, T' n True), (False, T' n False)]\<rparr>) # belief names G' T'"
    for G' T'
    by (simp add: belief_def)
  show ?case
    unfolding tail
    by (simp add: Cons.IH iadd_item_fl_def person_gene_count_def)
qed

text \<open>
  Evaluations in doubles: the belief state of a single founder without evidence, before and
  after normalisation, and three calls of \<^verbatim>\<open>update\<close> on one person.
\<close>

lemmas double_eval =
  round_double_def round_positive_def round_half_even_def scale_to_mantissa.simps

lemma single_founder_loop_double:
  assumes "lists_sets list_of {person}"
    and "mother r = None" and "father r = None" and "trait r = None"
  shows "main_loop_fl round_double list_of [(person, r)] =
     Inr [(person,
           \<lparr>gene_dist = [(2, 5764607523034235 / 576460752303423488),
                         (1, 8646911284551353 / 288230376151711744),
                         (0, 1080863910568919 / 1125899906842624)],
            trait_dist = [(True, 2370694843847829 / 72057594037927936),
                          (False, 2177715599815003 / 2251799813685248)]\<rparr>)]"
proof -
  have ps: "powerset list_of {person} = [{}, {person}]" "powerset list_of {} = [{}]"
    using assms(1) by (simp_all add: powerset_single powerset_empty)
  have nf: "\<not> fails_evidence [(person, r)] h" for h
    by (simp add: fails_evidence_def assms(4))
  show ?thesis
    by (simp add: main_loop_fl_def main_step_fl_def score_all_fl_def ps nf
        joint_probability_fl_def gene_step_fl_def trait_step_fl_def getitem_def
        PROBS_gene_fl_def PROBS_trait_fl_def person_gene_count_def iadd_item_fl_def
        initial_probabilities_def assms(2,3) double_eval)
qed

lemma single_founder_double:
  assumes "lists_sets list_of {person}"
    and "mother r = None" and "father r = None" and "trait r = None"
  shows "main_fl round_double list_of [(person, r)] =
     Inr [(person,
           \<lparr>gene_dist = [(2, 5764607523034235 / 576460752303423488),
                         (1, 8646911284551353 / 288230376151711744),
                         (0, 1080863910568919 / 1125899906842624)],
            trait_dist = [(True, 4741389687695659 / 144115188075855872),
                          (False, 8710862399260013 / 9007199254740992)]\<rparr>)]"
  unfolding main_fl_def single_founder_loop_double [OF assms]
  by (simp add: normalize_statistic_fl_def sum_fl_def double_eval)

lemma double_prior_table:
  "round_double 0.01 = 5764607523034235 / 576460752303423488"
  "round_double 0.03 = 1080863910568919 / 36028797018963968"
  "round_double 0.96 = 1080863910568919 / 1125899906842624"
  by (simp_all add: double_eval)

lemma update_three_double:
  "update_all_fl round_double
     [({}, {''Harry''}, {''Harry''}, round_double (1 / 10)),
      ({}, {''Harry''}, {}, round_double (2 / 10)),
      ({''Harry''}, {}, {}, round_double (3 / 10))]
     (initial_probabilities
        [(''Harry'', \<lparr>name = ''Harry'', mother = None, father = None, trait = None\<rparr>)]) =
   Inr [(''Harry'',
         \<lparr>gene_dist = [(2, 1351079888211149 / 4503599627370496),
                       (1, 5404319552844595 / 18014398509481984), (0, 0)],
          trait_dist = [(True, 3602879701896397 / 36028797018963968), (False, 1 / 2)]\<rparr>)]"
  by (simp add: update_all_fl_def initial_probabilities_def iadd_item_fl_def
      person_gene_count_def double_eval)

lemma sums_three_double:
  "sum_fl round_double
     [1351079888211149 / 4503599627370496, 5404319552844595 / 18014398509481984, 0] =
     1351079888211149 / 2251799813685248"
  "sum_fl round_double [3602879701896397 / 36028797018963968, 1 / 2] =
     5404319552844595 / 9007199254740992"
  by (simp_all add: sum_fl_def double_eval)

text \<open>The same population and the sequences of calls in exact arithmetic.\<close>

lemma single_founder_exact:
  assumes "lists_sets list_of {person}"
    and "mother r = None" and "father r = None" and "trait r = None"
  shows "main list_of [(person, r)] =
           Inr [(person, \<lparr>gene_dist = PROBS_gene,
                          trait_dist = [(True, 0.0329), (False, 0.9671)]\<rparr>)]"
proof -
  have ps: "powerset list_of {person} = [{}, {person}]" "powerset list_of {} = [{}]"
    using assms(1) by (simp_all add: powerset_single powerset_empty)
  have j: "joint [(person, r)] a b h =
      prior (person_gene_count a b person) *
      trait_given_gene (person_gene_count a b person) (person \<in> h)" for a b h
    by (simp add: joint_def person_factor_def gene_factor_def assms(2,3))
  have nf: "\<not> fails_evidence [(person, r)] h" for h
    by (simp add: fails_evidence_def assms(4))
  have oa: "over_assignments list_of [(person, r)] f =
      f {} {} {} + f {} {} {person} + f {} {person} {} +
      (f {person} {} {} + f {person} {} {person} + f {person} {person} {})" for f
    by (simp add: over_assignments_def over_partitions_def ps nf)
  have total: "total_mass list_of [(person, r)] = 1"
    by (simp add: total_mass_def oa j person_gene_count_def prior_def trait_given_gene_def)
  have g: "over_assignments list_of [(person, r)]
             (\<lambda>h a b. gene_mass [(person, r)] h a b person 2) = 0.01"
     "over_assignments list_of [(person, r)]
             (\<lambda>h a b. gene_mass [(person, r)] h a b person 1) = 0.03"
     "over_assignments list_of [(person, r)]
             (\<lambda>h a b. gene_mass [(person, r)] h a b person 0) = 0.96"
    by (simp_all add: oa gene_mass_def j person_gene_count_def prior_def trait_given_gene_def)
  have t: "over_assignments list_of [(person, r)]
             (\<lambda>h a b. trait_mass [(person, r)] h a b person True) = 0.0329"
     "over_assignments list_of [(person, r)]
             (\<lambda>h a b. trait_mass [(person, r)] h a b person False) = 0.9671"
    by (simp_all add: oa trait_mass_def j person_gene_count_def prior_def trait_given_gene_def)
  have "lists_sets list_of (set (map fst [(person, r)]))"
    using assms(1) by simp
  then have "main list_of [(person, r)] =
     Inr (belief (map fst [(person, r)])
       (\<lambda>n g. over_assignments list_of [(person, r)] (\<lambda>h a b. gene_mass [(person, r)] h a b n g) /
                total_mass list_of [(person, r)])
       (\<lambda>n b. over_assignments list_of [(person, r)] (\<lambda>h a c. trait_mass [(person, r)] h a c n b) /
                total_mass list_of [(person, r)]))"
    by (intro main_eq) simp
  then show ?thesis
    by (simp add: belief_def total g t PROBS_gene_def)
qed

lemma update_all_mass:
  "\<exists>probs. update_all calls (initial_probabilities people) = Inr probs \<and>
      map fst probs = map fst people \<and>
      (\<forall>(person, d) \<in> set probs.
         sum_list (map snd (gene_dist d)) = mass_of calls \<and>
         sum_list (map snd (trait_dist d)) = mass_of calls)"
proof -
  let ?G = "\<lambda>n g. 0 + (\<Sum>(a, b, h, p)\<leftarrow>calls. if g = person_gene_count a b n then p else (0::real))"
  let ?T = "\<lambda>n t. 0 + (\<Sum>(a, b, h, p)\<leftarrow>calls. if t = (n \<in> h) then p else (0::real))"
  have run: "update_all calls (initial_probabilities people) =
      Inr (belief (map fst people) ?G ?T)"
    by (simp only: initial_belief update_all_belief)
  have sums: "sum_list (map snd (gene_dist d)) = mass_of calls \<and>
         sum_list (map snd (trait_dist d)) = mass_of calls"
    if "(person, d) \<in> set (belief (map fst people) ?G ?T)" for person d
    using belief_member [OF that] gene_buckets_mass [where calls = calls and n = person]
      trait_buckets_mass [where calls = calls and n = person]
    by simp
  have "\<forall>(person, d) \<in> set (belief (map fst people) ?G ?T).
         sum_list (map snd (gene_dist d)) = mass_of calls \<and>
         sum_list (map snd (trait_dist d)) = mass_of calls"
    using sums by (intro ballI) (simp only: split_paired_all prod.case)
  with run belief_names [of "map fst people" ?G ?T]
  show ?thesis
    by (intro exI [of _ "belief (map fst people) ?G ?T"] conjI)
qed

section \<open>The claims about \<^verbatim>\<open>joint_probability\<close>\<close>

text \<open>
  Claim C1. On a population in which every individual has both parents or none,
  \<^verbatim>\<open>joint_probability\<close> returns, without an error, the product over all individuals of
  the gene term and the trait term: the gene term is the prior of the individual's gene
  count for a founder and the inheritance formula on the gene counts of the two parents in
  the same assignment otherwise; the trait term is the table entry for the individual's
  gene count and trait value.
\<close>

theorem joint_probability_product:
  assumes "parents_paired people"
  shows "joint_probability people one_gene two_genes have_trait =
     Inr (\<Prod>(person, r)\<leftarrow>people.
            gene_term one_gene two_genes person r *
            trait_given_gene (person_gene_count one_gene two_genes person)
              (person \<in> have_trait))"
proof -
  have "map (person_factor one_gene two_genes have_trait) people =
        map (\<lambda>(person, r).
               gene_term one_gene two_genes person r *
               trait_given_gene (person_gene_count one_gene two_genes person)
                 (person \<in> have_trait)) people"
  proof (rule map_cong [OF refl])
    fix pr assume mem: "pr \<in> set people"
    obtain person r where pr: "pr = (person, r)" by (cases pr)
    from assms mem
    have "case pr of (person, r) \<Rightarrow> (mother r = None) = (father r = None)"
      unfolding parents_paired_def by (rule bspec)
    then have "(mother r = None) = (father r = None)"
      by (simp add: pr)
    then show "person_factor one_gene two_genes have_trait pr =
        (case pr of (person, r) \<Rightarrow>
           gene_term one_gene two_genes person r *
           trait_given_gene (person_gene_count one_gene two_genes person)
             (person \<in> have_trait))"
      by (simp add: pr person_factor_def gene_factor_paired)
  qed
  then show ?thesis
    by (simp only: joint_probability_eq joint_def)
qed

theorem joint_probability_product_witness:
  "parents_paired example_family \<and>
   joint_probability example_family {''Harry''} {''James''} {''James''} =
     Inr 0.0026643247488"
proof -
  have h: "parents_paired example_family"
    by (simp add: parents_paired_def example_family_def)
  have "joint_probability example_family {''Harry''} {''James''} {''James''} =
     Inr 0.0026643247488"
    using joint_probability_product [OF h, of "{''Harry''}" "{''James''}" "{''James''}"]
    by (simp add: example_family_def gene_term_def founder_def prior_def inherit_def
        transmit_def trait_given_gene_def person_gene_count_def PROBS_mutation_def)
  with h show ?thesis by simp
qed

text \<open>
  Claim C2. For an individual with both parents recorded, the statement that multiplies the
  gene factor into the running product multiplies in the combination for the child's gene
  count (\<open>inherit\<close>: the product of the two complements for count 0, the two mixed
  products for count 1, the product for count 2) of the two transmission probabilities,
  each determined by the parent's gene count in the same assignment (\<open>transmit\<close>: 0.5
  for one copy, one minus the mutation rate for two, the mutation rate for none). The
  result of \<^verbatim>\<open>joint_probability\<close> on a population holding that individual has this
  factor, next to the individual's trait term and the factors of the others.
\<close>

theorem gene_step_inheritance:
  assumes "mother r = Some mother_name" and "father r = Some father_name"
  shows "gene_step one_gene two_genes person r x =
           Inr (x * inherit (person_gene_count one_gene two_genes person)
                      (transmit (person_gene_count one_gene two_genes mother_name))
                      (transmit (person_gene_count one_gene two_genes father_name))) \<and>
         joint_probability (earlier @ (person, r) # later) one_gene two_genes have_trait =
           Inr (joint earlier one_gene two_genes have_trait *
                (inherit (person_gene_count one_gene two_genes person)
                   (transmit (person_gene_count one_gene two_genes mother_name))
                   (transmit (person_gene_count one_gene two_genes father_name)) *
                 trait_given_gene (person_gene_count one_gene two_genes person)
                   (person \<in> have_trait)) *
                joint later one_gene two_genes have_trait)"
proof
  show "gene_step one_gene two_genes person r x =
           Inr (x * inherit (person_gene_count one_gene two_genes person)
                      (transmit (person_gene_count one_gene two_genes mother_name))
                      (transmit (person_gene_count one_gene two_genes father_name)))"
    using assms by (simp add: gene_step_eq gene_factor_def)
  have "person_factor one_gene two_genes have_trait (person, r) =
      inherit (person_gene_count one_gene two_genes person)
        (transmit (person_gene_count one_gene two_genes mother_name))
        (transmit (person_gene_count one_gene two_genes father_name)) *
      trait_given_gene (person_gene_count one_gene two_genes person) (person \<in> have_trait)"
    using assms by (simp add: person_factor_def gene_factor_def)
  then show "joint_probability (earlier @ (person, r) # later) one_gene two_genes have_trait =
           Inr (joint earlier one_gene two_genes have_trait *
                (inherit (person_gene_count one_gene two_genes person)
                   (transmit (person_gene_count one_gene two_genes mother_name))
                   (transmit (person_gene_count one_gene two_genes father_name)) *
                 trait_given_gene (person_gene_count one_gene two_genes person)
                   (person \<in> have_trait)) *
                joint later one_gene two_genes have_trait)"
    by (simp add: joint_probability_eq joint_def)
qed

theorem gene_step_inheritance_witness:
  "gene_step {''Harry''} {''James''} ''Harry''
     \<lparr>name = ''Harry'', mother = Some ''Lily'', father = Some ''James'', trait = None\<rparr> 1 =
     Inr 0.9802 \<and>
   joint_probability
     [(''Harry'',
       \<lparr>name = ''Harry'', mother = Some ''Lily'', father = Some ''James'', trait = None\<rparr>)]
     {''Harry''} {''James''} {} = Inr 0.431288"
  using gene_step_inheritance [of
      "\<lparr>name = ''Harry'', mother = Some ''Lily'', father = Some ''James'', trait = None\<rparr>"
      "''Lily''" "''James''" "{''Harry''}" "{''James''}" "''Harry''" 1 "[]" "[]" "{}"]
  by (simp add: inherit_def transmit_def person_gene_count_def PROBS_mutation_def
      trait_given_gene_def joint_def)

section \<open>The claims about the enumeration of \<^verbatim>\<open>main\<close>\<close>

text \<open>
  Claim C3. For a candidate trait subset, the body of the outer loop of \<^verbatim>\<open>main\<close> leaves
  the belief state as it is (the subset is skipped) exactly when some individual with known
  evidence contradicts the subset, and runs the scoring loops otherwise; so the whole loop
  scores, in order, exactly the candidate subsets that no evidence contradicts.
\<close>

theorem evidence_filter:
  "main_step list_of people have_trait probs =
     (if contradicts_evidence people have_trait then Inr probs
      else score_all list_of people have_trait probs) \<and>
   main_loop list_of people =
     for_each (filter (\<lambda>have_trait. \<not> contradicts_evidence people have_trait)
                 (powerset list_of (set (map fst people))))
       (score_all list_of people) (initial_probabilities people)"
proof
  show "main_step list_of people have_trait probs =
     (if contradicts_evidence people have_trait then Inr probs
      else score_all list_of people have_trait probs)"
    by (simp only: main_step_def fails_evidence_contradicts)
  have "main_step list_of people =
      (\<lambda>h s. if contradicts_evidence people h then Inr s else score_all list_of people h s)"
    by (intro ext) (simp only: main_step_def fails_evidence_contradicts)
  then show "main_loop list_of people =
     for_each (filter (\<lambda>have_trait. \<not> contradicts_evidence people have_trait)
                 (powerset list_of (set (map fst people))))
       (score_all list_of people) (initial_probabilities people)"
    by (simp only: main_loop_def for_each_skip)
qed

theorem evidence_filter_witness:
  "contradicts_evidence example_family {''Lily''} \<and>
   main_step (listed_in [''Harry'', ''James'', ''Lily'']) example_family {''Lily''}
     (initial_probabilities example_family) = Inr (initial_probabilities example_family) \<and>
   \<not> contradicts_evidence example_family {''James''} \<and>
   main_step (listed_in [''Harry'', ''James'', ''Lily'']) example_family {''James''}
     (initial_probabilities example_family) =
   score_all (listed_in [''Harry'', ''James'', ''Lily'']) example_family {''James''}
     (initial_probabilities example_family)"
proof -
  have a: "contradicts_evidence example_family {''Lily''}"
    and b: "\<not> contradicts_evidence example_family {''James''}"
    by (simp_all add: contradicts_evidence_def example_family_def)
  show ?thesis
    using a b
      evidence_filter [of "listed_in [''Harry'', ''James'', ''Lily'']" example_family
        "{''Lily''}" "initial_probabilities example_family"]
      evidence_filter [of "listed_in [''Harry'', ''James'', ''Lily'']" example_family
        "{''James''}" "initial_probabilities example_family"]
    by simp
qed

section \<open>The claims about \<^verbatim>\<open>normalize\<close>\<close>

text \<open>
  Claim C4. When the sum of every distribution of every individual is not zero,
  \<^verbatim>\<open>normalize\<close> returns without an error; it keeps the individuals and their order, every
  bucket of a distribution is the old bucket divided by the sum that distribution had
  before, and every distribution then sums to one, hence within one millionth of one.
\<close>

theorem normalize_sums_to_one:
  assumes "\<forall>(person, d) \<in> set probs.
             sum_list (map snd (gene_dist d)) \<noteq> 0 \<and> sum_list (map snd (trait_dist d)) \<noteq> 0"
  shows "\<exists>probs'. normalize_probabilities probs = Inr probs' \<and>
           list_all2 (\<lambda>(person, d) (person', d').
                        person' = person \<and>
                        normalized_from (gene_dist d) (gene_dist d') \<and>
                        normalized_from (trait_dist d) (trait_dist d'))
             probs probs'"
  using assms
proof (induction probs)
  case Nil
  show ?case by simp
next
  case (Cons pd probs)
  obtain person d where pd: "pd = (person, d)" by (cases pd)
  from Cons.prems have nz: "sum_list (map snd (gene_dist d)) \<noteq> 0"
      "sum_list (map snd (trait_dist d)) \<noteq> 0"
    and rest: "\<forall>(person, d) \<in> set probs.
             sum_list (map snd (gene_dist d)) \<noteq> 0 \<and> sum_list (map snd (trait_dist d)) \<noteq> 0"
    by (simp_all add: pd)
  from normalize_statistic_ok [OF nz(1)] obtain g where
    g: "normalize_statistic (gene_dist d) = Inr g" "normalized_from (gene_dist d) g" by blast
  from normalize_statistic_ok [OF nz(2)] obtain t where
    t: "normalize_statistic (trait_dist d) = Inr t" "normalized_from (trait_dist d) t" by blast
  from Cons.IH [OF rest] obtain probs' where
    p: "normalize_probabilities probs = Inr probs'"
       "list_all2 (\<lambda>(person, d) (person', d').
                        person' = person \<and>
                        normalized_from (gene_dist d) (gene_dist d') \<and>
                        normalized_from (trait_dist d) (trait_dist d'))
             probs probs'" by blast
  show ?case
    by (simp add: pd g t p)
qed

theorem normalize_sums_to_one_witness:
  "normalize_probabilities
     [(''Harry'', \<lparr>gene_dist = [(2, 1), (1, 1), (0, 2)],
                   trait_dist = [(True, 3), (False, 1)]\<rparr>)] =
   Inr [(''Harry'', \<lparr>gene_dist = [(2, 1 / 4), (1, 1 / 4), (0, 1 / 2)],
                     trait_dist = [(True, 3 / 4), (False, 1 / 4)]\<rparr>)]"
proof -
  let ?P = "[(''Harry'', \<lparr>gene_dist = [(2, 1), (1, 1), (0, 2::real)],
                   trait_dist = [(True, 3), (False, 1::real)]\<rparr>)]"
  have h: "\<forall>(person, d) \<in> set ?P.
      sum_list (map snd (gene_dist d)) \<noteq> 0 \<and> sum_list (map snd (trait_dist d)) \<noteq> 0"
    by simp
  from normalize_sums_to_one [OF h] obtain probs' where
    "normalize_probabilities ?P = Inr probs'"
    "list_all2 (\<lambda>(person, d) (person', d').
                  person' = person \<and>
                  normalized_from (gene_dist d) (gene_dist d') \<and>
                  normalized_from (trait_dist d) (trait_dist d')) ?P probs'"
    by blast
  then show ?thesis
    by (auto simp: list_all2_Cons1 normalized_from_def)
qed

text \<open>
  Claim C5, as the code has it. When some distribution of some individual has a bucket and
  sums to zero, \<^verbatim>\<open>normalize\<close> fails, and the failure is the \<open>ZeroDivisionError\<close> that
  Python raises at the division: no value is returned, so no NaN is produced. The error is
  the interpreter's own; the dedicated error that the claim names is never raised, as the
  all-zero belief state of one person shows.
\<close>

theorem normalize_zero_sum:
  assumes "(person, d) \<in> set probs"
    and "(gene_dist d \<noteq> [] \<and> sum_list (map snd (gene_dist d)) = 0) \<or>
         (trait_dist d \<noteq> [] \<and> sum_list (map snd (trait_dist d)) = 0)"
  shows "normalize_probabilities probs = Inl ZeroDivisionError"
proof -
  from normalize_probabilities_zero [OF assms] obtain e where
    e: "normalize_probabilities probs = Inl e" ..
  then have "e = ZeroDivisionError" by (rule normalize_probabilities_error)
  with e show ?thesis by simp
qed

theorem normalize_zero_sum_witness:
  "normalize_probabilities
     [(''Harry'', \<lparr>gene_dist = [(2, 1), (1, 1), (0, 2)],
                   trait_dist = [(True, 3), (False, - 3)]\<rparr>)] = Inl ZeroDivisionError"
  using normalize_zero_sum [of "''Harry''"
      "\<lparr>gene_dist = [(2, 1), (1, 1), (0, 2)], trait_dist = [(True, 3), (False, - 3)]\<rparr>"
      "[(''Harry'', \<lparr>gene_dist = [(2, 1), (1, 1), (0, 2)],
                   trait_dist = [(True, 3), (False, - 3)]\<rparr>)]"]
  by simp

text \<open>
  The claim as stated fails on the all-zero belief state of one person: the error that
  \<^verbatim>\<open>normalize\<close> raises there is \<open>ZeroDivisionError\<close>, not a dedicated one.
\<close>

theorem normalize_zero_sum_counterexample:
  "normalize_probabilities
     [(''Harry'', \<lparr>gene_dist = [(2, 0), (1, 0), (0, 0)],
                   trait_dist = [(True, 0), (False, 0)]\<rparr>)] = Inl ZeroDivisionError \<and>
   normalize_probabilities
     [(''Harry'', \<lparr>gene_dist = [(2, 0), (1, 0), (0, 0)],
                   trait_dist = [(True, 0), (False, 0)]\<rparr>)] \<noteq> Inl UnsatisfiableEvidence"
  by (simp add: normalize_statistic_def)

section \<open>The claims about the output of \<^verbatim>\<open>main\<close>\<close>

text \<open>
  Claim C6. For a population (a dict, so with each name once) and an individual whose
  observed trait is true, \<^verbatim>\<open>main\<close> returns without an error, the individual is in the
  output, and the individual's trait distribution is 1 on true and 0 on false.
\<close>

theorem evidence_true_certain:
  assumes "distinct (map fst people)"
    and "lists_sets list_of (set (map fst people))"
    and "(person, r) \<in> set people"
    and "trait r = Some True"
  shows "\<exists>probs. main list_of people = Inr probs \<and>
           (\<exists>d. (person, d) \<in> set probs) \<and>
           (\<forall>d. (person, d) \<in> set probs \<longrightarrow> trait_dist d = [(True, 1), (False, 0)])"
proof -
  let ?G = "\<lambda>n g. over_assignments list_of people (\<lambda>h a b. gene_mass people h a b n g) /
                total_mass list_of people"
  let ?T = "\<lambda>n b. over_assignments list_of people (\<lambda>h a c. trait_mass people h a c n b) /
                total_mass list_of people"
  have main: "main list_of people = Inr (belief (map fst people) ?G ?T)"
    using assms(1,2) by (rule main_eq)
  have nz: "total_mass list_of people \<noteq> 0"
    using total_mass_pos [OF assms(1,2)] by simp
  have false0: "over_assignments list_of people (\<lambda>h a c. trait_mass people h a c person False) = 0"
  proof (rule over_assignments_zero)
    fix h a b assume "\<not> fails_evidence people h"
    with assms(3,4) have "person \<in> h" by (rule evidence_true_member)
    then show "trait_mass people h a b person False = 0"
      by (simp add: trait_mass_def)
  qed
  have true1: "over_assignments list_of people (\<lambda>h a c. trait_mass people h a c person True) =
      total_mass list_of people"
    using trait_total [of list_of people person] by (simp add: false0)
  have T: "?T person True = 1" "?T person False = 0"
    using nz by (simp_all only: true1 false0) simp_all
  have "fst (person, r) \<in> fst ` set people" using assms(3) by (rule imageI)
  then have "person \<in> set (map fst people)" by simp
  then have has: "\<exists>d. (person, d) \<in> set (belief (map fst people) ?G ?T)"
    by (intro exI) (rule belief_has)
  have all: "trait_dist d = [(True, 1), (False, 0)]"
    if "(person, d) \<in> set (belief (map fst people) ?G ?T)" for d
    using belief_member [OF that] T by simp
  from main has all show ?thesis by blast
qed

theorem evidence_true_certain_witness:
  "\<exists>probs. main (listed_in [''Harry'', ''James'', ''Lily'']) example_family = Inr probs \<and>
     (\<exists>d. (''James'', d) \<in> set probs) \<and>
     (\<forall>d. (''James'', d) \<in> set probs \<longrightarrow> trait_dist d = [(True, 1), (False, 0)])"
proof -
  have d: "distinct (map fst example_family)"
    by (simp add: example_family_def)
  have l: "lists_sets (listed_in [''Harry'', ''James'', ''Lily'']) (set (map fst example_family))"
    using lists_sets_listed_in [of "[''Harry'', ''James'', ''Lily'']"]
    by (simp add: example_family_def)
  have m: "(''James'',
      \<lparr>name = ''James'', mother = None, father = None, trait = Some True\<rparr>)
        \<in> set example_family"
    by (simp add: example_family_def)
  show ?thesis
    by (rule evidence_true_certain [OF d l m]) simp
qed

text \<open>
  Claim C7, as the code has it. For a population of one founder without evidence, whatever
  the name, the gene distribution that \<^verbatim>\<open>main\<close> returns is the prior table
  \<^verbatim>\<open>PROBS["gene"]\<close> up to the rounding of doubles: computed in exact arithmetic it is the
  table; computed in doubles, as the program computes it, the values for the gene counts 2
  and 0 are the table's doubles and the value for the gene count 1 is the table's double
  plus one unit in its last place, two to the -58 (0.030000000000000002 for 0.03).
\<close>

theorem single_founder_prior:
  assumes "lists_sets list_of {person}"
    and "mother r = None" and "father r = None" and "trait r = None"
  shows "main list_of [(person, r)] =
           Inr [(person, \<lparr>gene_dist = PROBS_gene,
                          trait_dist = [(True, 0.0329), (False, 0.9671)]\<rparr>)] \<and>
         main_fl round_double list_of [(person, r)] =
           Inr [(person,
                 \<lparr>gene_dist = [(2, round_double 0.01),
                               (1, round_double 0.03 + 1 / 2 ^ 58),
                               (0, round_double 0.96)],
                  trait_dist = [(True, 4741389687695659 / 144115188075855872),
                                (False, 8710862399260013 / 9007199254740992)]\<rparr>)]"
proof
  show "main list_of [(person, r)] =
           Inr [(person, \<lparr>gene_dist = PROBS_gene,
                          trait_dist = [(True, 0.0329), (False, 0.9671)]\<rparr>)]"
    using assms by (rule single_founder_exact)
  show "main_fl round_double list_of [(person, r)] =
           Inr [(person,
                 \<lparr>gene_dist = [(2, round_double 0.01),
                               (1, round_double 0.03 + 1 / 2 ^ 58),
                               (0, round_double 0.96)],
                  trait_dist = [(True, 4741389687695659 / 144115188075855872),
                                (False, 8710862399260013 / 9007199254740992)]\<rparr>)]"
    unfolding single_founder_double [OF assms] double_prior_table by simp
qed

theorem single_founder_prior_witness:
  "main (listed_in [''Harry''])
     [(''Harry'', \<lparr>name = ''Harry'', mother = None, father = None, trait = None\<rparr>)] =
     Inr [(''Harry'', \<lparr>gene_dist = [(2, 0.01), (1, 0.03), (0, 0.96)],
                       trait_dist = [(True, 0.0329), (False, 0.9671)]\<rparr>)] \<and>
   main_fl round_double (listed_in [''Harry''])
     [(''Harry'', \<lparr>name = ''Harry'', mother = None, father = None, trait = None\<rparr>)] =
     Inr [(''Harry'',
           \<lparr>gene_dist = [(2, 5764607523034235 / 576460752303423488),
                         (1, 8646911284551353 / 288230376151711744),
                         (0, 1080863910568919 / 1125899906842624)],
            trait_dist = [(True, 4741389687695659 / 144115188075855872),
                          (False, 8710862399260013 / 9007199254740992)]\<rparr>)]"
proof -
  have h: "lists_sets (listed_in [''Harry'']) {''Harry''}"
    using lists_sets_listed_in [of "[''Harry'']"] by simp
  show ?thesis
    using single_founder_prior [OF h, of
        "\<lparr>name = ''Harry'', mother = None, father = None, trait = None\<rparr>",
        unfolded double_prior_table]
    by (simp add: PROBS_gene_def)
qed

text \<open>
  The claim as stated fails on the founder \<^verbatim>\<open>Harry\<close>: the gene distribution that the
  program returns, in doubles, is not the table it holds. The bucket for the gene count 1
  accumulates the doubles of 0.03 times 0.44 and of 0.03 times 0.56, and their sum rounds
  to the double above that of 0.03.
\<close>

theorem single_founder_prior_counterexample:
  "main_fl round_double (listed_in [''Harry''])
     [(''Harry'', \<lparr>name = ''Harry'', mother = None, father = None, trait = None\<rparr>)] =
     Inr [(''Harry'',
           \<lparr>gene_dist = [(2, 5764607523034235 / 576460752303423488),
                         (1, 8646911284551353 / 288230376151711744),
                         (0, 1080863910568919 / 1125899906842624)],
            trait_dist = [(True, 4741389687695659 / 144115188075855872),
                          (False, 8710862399260013 / 9007199254740992)]\<rparr>)] \<and>
   [(2, 5764607523034235 / 576460752303423488),
    (1, 8646911284551353 / 288230376151711744),
    (0, 1080863910568919 / 1125899906842624)] \<noteq> PROBS_gene_fl round_double"
proof -
  have h: "lists_sets (listed_in [''Harry'']) {''Harry''}"
    using lists_sets_listed_in [of "[''Harry'']"] by simp
  show ?thesis
    unfolding PROBS_gene_fl_def double_prior_table
    using single_founder_double [OF h, of
        "\<lparr>name = ''Harry'', mother = None, father = None, trait = None\<rparr>"]
    by simp
qed

text \<open>
  Claim C8. Exchanging mother and father for any set of children changes neither the
  result of \<^verbatim>\<open>joint_probability\<close>, for any assignment, nor the result of \<^verbatim>\<open>main\<close>.
\<close>

theorem parents_symmetric:
  "joint_probability (swap_parents children people) one_gene two_genes have_trait =
     joint_probability people one_gene two_genes have_trait \<and>
   main list_of (swap_parents children people) = main list_of people"
proof
  show "joint_probability (swap_parents children people) one_gene two_genes have_trait =
     joint_probability people one_gene two_genes have_trait"
    by (simp only: joint_probability_swap)
  have "main_loop list_of (swap_parents children people) = main_loop list_of people"
    unfolding main_loop_def main_step_def score_all_def
    by (simp only: names_swap initial_swap fails_evidence_swap joint_probability_swap)
  then show "main list_of (swap_parents children people) = main list_of people"
    by (simp only: main_def)
qed

theorem parents_symmetric_witness:
  "joint_probability (swap_parents {''Harry''} example_family) {''Harry''} {''James''}
     {''James''} = Inr 0.0026643247488"
  using parents_symmetric [of "{''Harry''}" example_family "{''Harry''}" "{''James''}"
      "{''James''}" "listed_in [''Harry'', ''James'', ''Lily'']"]
  by (simp add: joint_probability_eq joint_def example_family_def person_factor_def
      gene_factor_def prior_def inherit_def transmit_def trait_given_gene_def
      person_gene_count_def PROBS_mutation_def)

section \<open>The claims about \<^verbatim>\<open>update\<close>\<close>

text \<open>
  Claim C9. Neither \<^verbatim>\<open>joint_probability\<close> nor \<^verbatim>\<open>update\<close> asks that \<^verbatim>\<open>one_gene\<close> and
  \<^verbatim>\<open>two_genes\<close> be disjoint. For a person in both sets, \<^verbatim>\<open>joint_probability\<close> returns,
  without an error, the product in which that person has the factor of gene count 1 (the
  prior or the inheritance formula for one copy, and the trait term for one copy), and in
  which a child of that person receives the gene from that parent with probability 0.5;
  \<^verbatim>\<open>update\<close> returns, without an error, the belief state in which that person's bucket
  for gene count 1 has grown by \<open>p\<close> and the buckets for 2 and 0 are as before. Both
  functions return what they return when the members of \<^verbatim>\<open>one_gene\<close> are removed from
  \<^verbatim>\<open>two_genes\<close>.
\<close>

theorem one_gene_precedence:
  assumes "person \<in> one_gene" and "person \<in> two_genes"
  shows "joint_probability (earlier @ (person, r) # later) one_gene two_genes have_trait =
           Inr (joint earlier one_gene two_genes have_trait *
                ((case (mother r, father r) of
                    (Some m, Some f) \<Rightarrow>
                      inherit 1 (transmit (person_gene_count one_gene two_genes m))
                        (transmit (person_gene_count one_gene two_genes f))
                  | _ \<Rightarrow> prior 1) *
                 trait_given_gene 1 (person \<in> have_trait)) *
                joint later one_gene two_genes have_trait) \<and>
         gene_step one_gene two_genes child
             \<lparr>name = child, mother = Some person, father = Some other, trait = e\<rparr> x =
           Inr (x * inherit (person_gene_count one_gene two_genes child) (1 / 2)
                      (transmit (person_gene_count one_gene two_genes other))) \<and>
         update [(person, \<lparr>gene_dist = [(2, g2), (1, g1), (0, g0)],
                           trait_dist = [(True, t1), (False, t0)]\<rparr>)]
             one_gene two_genes have_trait p =
           Inr [(person, \<lparr>gene_dist = [(2, g2), (1, g1 + p), (0, g0)],
                          trait_dist = [(True, if person \<in> have_trait then t1 + p else t1),
                                        (False, if person \<in> have_trait then t0 else t0 + p)]\<rparr>)] \<and>
         (\<exists>probs'. update (belief names G T) one_gene two_genes have_trait p = Inr probs' \<and>
            map fst probs' = names \<and>
            (\<forall>d. (person, d) \<in> set probs' \<longrightarrow>
                 gene_dist d = [(2, G person 2), (1, G person 1 + p), (0, G person 0)])) \<and>
         joint_probability people one_gene two_genes have_trait =
           joint_probability people one_gene (two_genes - one_gene) have_trait \<and>
         update probs one_gene two_genes have_trait p =
           update probs one_gene (two_genes - one_gene) have_trait p"
proof (intro conjI)
  have c: "person_gene_count one_gene two_genes person = 1"
    using assms(1) by (simp add: person_gene_count_def)
  have "person_factor one_gene two_genes have_trait (person, r) =
      (case (mother r, father r) of
         (Some m, Some f) \<Rightarrow>
           inherit 1 (transmit (person_gene_count one_gene two_genes m))
             (transmit (person_gene_count one_gene two_genes f))
       | _ \<Rightarrow> prior 1) *
      trait_given_gene 1 (person \<in> have_trait)"
    by (cases "mother r"; cases "father r") (simp_all add: person_factor_def gene_factor_def c)
  then show "joint_probability (earlier @ (person, r) # later) one_gene two_genes have_trait =
           Inr (joint earlier one_gene two_genes have_trait *
                ((case (mother r, father r) of
                    (Some m, Some f) \<Rightarrow>
                      inherit 1 (transmit (person_gene_count one_gene two_genes m))
                        (transmit (person_gene_count one_gene two_genes f))
                  | _ \<Rightarrow> prior 1) *
                 trait_given_gene 1 (person \<in> have_trait)) *
                joint later one_gene two_genes have_trait)"
    by (simp add: joint_probability_eq joint_def)
  show "gene_step one_gene two_genes child
             \<lparr>name = child, mother = Some person, father = Some other, trait = e\<rparr> x =
           Inr (x * inherit (person_gene_count one_gene two_genes child) (1 / 2)
                      (transmit (person_gene_count one_gene two_genes other)))"
    by (simp add: gene_step_eq gene_factor_def c transmit_def)
  show "update [(person, \<lparr>gene_dist = [(2, g2), (1, g1), (0, g0)],
                           trait_dist = [(True, t1), (False, t0)]\<rparr>)]
             one_gene two_genes have_trait p =
           Inr [(person, \<lparr>gene_dist = [(2, g2), (1, g1 + p), (0, g0)],
                          trait_dist = [(True, if person \<in> have_trait then t1 + p else t1),
                                        (False, if person \<in> have_trait then t0 else t0 + p)]\<rparr>)]"
    by (simp add: c iadd_item_def)
  let ?G = "\<lambda>n g. G n g + (if g = person_gene_count one_gene two_genes n then p else 0)"
  let ?T = "\<lambda>n b. T n b + (if b = (n \<in> have_trait) then p else 0)"
  have "gene_dist d = [(2, G person 2), (1, G person 1 + p), (0, G person 0)]"
    if "(person, d) \<in> set (belief names ?G ?T)" for d
    using belief_member [OF that] by (simp add: c)
  then show "\<exists>probs'. update (belief names G T) one_gene two_genes have_trait p = Inr probs' \<and>
            map fst probs' = names \<and>
            (\<forall>d. (person, d) \<in> set probs' \<longrightarrow>
                 gene_dist d = [(2, G person 2), (1, G person 1 + p), (0, G person 0)])"
    by (intro exI [of _ "belief names ?G ?T"]) (simp add: update_belief belief_names)
  show "joint_probability people one_gene two_genes have_trait =
     joint_probability people one_gene (two_genes - one_gene) have_trait"
    by (simp only: joint_probability_eq joint_diff)
  show "update probs one_gene two_genes have_trait p =
     update probs one_gene (two_genes - one_gene) have_trait p"
    by (simp only: update_diff)
qed

theorem one_gene_precedence_witness:
  "joint_probability example_family {''Harry''} {''Harry'', ''James''} {''James''} =
     Inr 0.0026643247488 \<and>
   update (initial_probabilities example_family) {''Harry''} {''Harry'', ''James''}
     {''James''} (1 / 4) =
     Inr [(''Harry'', \<lparr>gene_dist = [(2, 0), (1, 1 / 4), (0, 0)],
                       trait_dist = [(True, 0), (False, 1 / 4)]\<rparr>),
          (''James'', \<lparr>gene_dist = [(2, 1 / 4), (1, 0), (0, 0)],
                       trait_dist = [(True, 1 / 4), (False, 0)]\<rparr>),
          (''Lily'', \<lparr>gene_dist = [(2, 0), (1, 0), (0, 1 / 4)],
                      trait_dist = [(True, 0), (False, 1 / 4)]\<rparr>)]"
proof -
  have a: "''Harry'' \<in> {''Harry''}" and b: "''Harry'' \<in> {''Harry'', ''James''}"
    by simp_all
  show ?thesis
    using one_gene_precedence [OF a b, of "[]"
        "\<lparr>name = ''Harry'', mother = Some ''Lily'', father = Some ''James'', trait = None\<rparr>"
        "[(''James'', \<lparr>name = ''James'', mother = None, father = None, trait = Some True\<rparr>),
          (''Lily'', \<lparr>name = ''Lily'', mother = None, father = None, trait = Some False\<rparr>)]"
        "{''James''}" "''Harry''" "''James''" None 1 0 0 0 0 0 "1 / 4"
        "[''Harry'', ''James'', ''Lily'']" "\<lambda>_ _. 0" "\<lambda>_ _. 0" example_family
        "initial_probabilities example_family"]
    by (simp add: example_family_def joint_def person_factor_def gene_factor_def prior_def
        inherit_def transmit_def trait_given_gene_def person_gene_count_def
        PROBS_mutation_def initial_probabilities_def iadd_item_def)
qed

text \<open>
  Claim C10, as the code has it. On a belief state with the buckets \<^verbatim>\<open>main\<close> creates,
  one call of \<^verbatim>\<open>update\<close> adds \<open>p\<close> to the gene bucket of each person's gene count and to
  the trait bucket of each person's trait value, and leaves every other bucket as it is;
  in the program each of these additions is rounded to a double. From the all-zero belief
  state, any sequence of calls returns without an error a belief state for the same
  persons; when the additions are exact, the gene buckets and the trait buckets of every
  person both sum to the mass added by the calls. With the rounded additions of the
  program the equality of the two sums is not guaranteed.
\<close>

theorem update_mass_invariant:
  "update (belief names G T) one_gene two_genes have_trait p =
     Inr (belief names
            (\<lambda>n g. G n g + (if g = person_gene_count one_gene two_genes n then p else 0))
            (\<lambda>n b. T n b + (if b = (n \<in> have_trait) then p else 0))) \<and>
   (\<exists>probs. update_all calls (initial_probabilities people) = Inr probs \<and>
      map fst probs = map fst people \<and>
      (\<forall>(person, d) \<in> set probs.
         sum_list (map snd (gene_dist d)) = mass_of calls \<and>
         sum_list (map snd (trait_dist d)) = mass_of calls)) \<and>
   update_fl fl (belief names G T) one_gene two_genes have_trait p =
     Inr (belief names
            (\<lambda>n g. if g = person_gene_count one_gene two_genes n then fl (G n g + p)
                   else G n g)
            (\<lambda>n b. if b = (n \<in> have_trait) then fl (T n b + p) else T n b))"
  by (intro conjI update_belief update_all_mass update_fl_belief)

theorem update_mass_invariant_witness:
  "update_all [({''Harry''}, {''James''}, {''James''}, 1 / 4), ({}, {''Harry''}, {}, 1 / 2)]
     (initial_probabilities example_family) =
   Inr [(''Harry'', \<lparr>gene_dist = [(2, 1 / 2), (1, 1 / 4), (0, 0)],
                     trait_dist = [(True, 0), (False, 3 / 4)]\<rparr>),
        (''James'', \<lparr>gene_dist = [(2, 1 / 4), (1, 0), (0, 1 / 2)],
                     trait_dist = [(True, 1 / 4), (False, 1 / 2)]\<rparr>),
        (''Lily'', \<lparr>gene_dist = [(2, 0), (1, 0), (0, 3 / 4)],
                    trait_dist = [(True, 0), (False, 3 / 4)]\<rparr>)] \<and>
   mass_of [({''Harry''}, {''James''}, {''James''}, 1 / 4), ({}, {''Harry''}, {}, 1 / 2)] =
     3 / 4"
  using update_mass_invariant [of "[]" "\<lambda>_ _. 0" "\<lambda>_ _. 0" "{}" "{}" "{}" 0
      "[({''Harry''}, {''James''}, {''James''}, 1 / 4), ({}, {''Harry''}, {}, 1 / 2)]"
      example_family "\<lambda>x. x"]
  by (simp add: update_all_def initial_probabilities_def example_family_def iadd_item_def
      person_gene_count_def mass_of_def)

text \<open>
  The claim as stated fails on three calls for the one person \<^verbatim>\<open>Harry\<close>, with the doubles
  of 0.1, 0.2 and 0.3 for \<open>p\<close>: the first two go to the gene bucket 2 and the third to the
  gene bucket 1, the first to the trait bucket \<^verbatim>\<open>True\<close> and the other two to \<^verbatim>\<open>False\<close>.
  The buckets then hold 0.30000000000000004 and 0.3 for the genes, 0.1 and 0.5 for the
  trait. Their sums differ, as exact sums and as the sums \<^verbatim>\<open>sum\<close> computes
  (0.6000000000000001 and 0.6).
\<close>

theorem update_mass_invariant_counterexample:
  "update_all_fl round_double
     [({}, {''Harry''}, {''Harry''}, round_double (1 / 10)),
      ({}, {''Harry''}, {}, round_double (2 / 10)),
      ({''Harry''}, {}, {}, round_double (3 / 10))]
     (initial_probabilities
        [(''Harry'', \<lparr>name = ''Harry'', mother = None, father = None, trait = None\<rparr>)]) =
   Inr [(''Harry'',
         \<lparr>gene_dist = [(2, 1351079888211149 / 4503599627370496),
                       (1, 5404319552844595 / 18014398509481984), (0, 0)],
          trait_dist = [(True, 3602879701896397 / 36028797018963968), (False, 1 / 2)]\<rparr>)] \<and>
   sum_list [1351079888211149 / 4503599627370496, 5404319552844595 / 18014398509481984, 0]
     \<noteq> sum_list [3602879701896397 / 36028797018963968, 1 / (2::real)] \<and>
   sum_fl round_double
     [1351079888211149 / 4503599627370496, 5404319552844595 / 18014398509481984, 0]
     \<noteq> sum_fl round_double [3602879701896397 / 36028797018963968, 1 / 2]"
  unfolding update_three_double sums_three_double by simp

end
